theory Spec2Isabelle
  imports Complex_Main
begin

section \<open>simpleperf: data model\<close>

text \<open>
  The program is one Python module, \<^verbatim>\<open>simplePerf.py\<close>. Byte strings are lists of
  characters, Python integers are \<^typ>\<open>int\<close>, and the floating-point values that come
  from \<^verbatim>\<open>time.time()\<close> and from true division are idealised as \<^typ>\<open>real\<close>: the
  model keeps every formula of the source and leaves rounding out.

  Every function of the source that prints writes to a list of \<open>line\<close> values, one
  constructor for each \<^verbatim>\<open>print\<close> statement, carrying the values that the f-string
  interpolates (the rendering with \<^verbatim>\<open>:.1f\<close> is left out).
\<close>

type_synonym bytes = string

type_synonym address = "string \<times> int"

datatype py_error = ZeroDivisionError | ValueError

definition BYE :: bytes where
  "BYE = ''BYE''"

definition ACK_BYE :: bytes where
  "ACK_BYE = ''ACK: BYE''"

text \<open>The statistics line of the server, line 129.\<close>

record server_report =
  sr_addr :: address
  sr_elapsed_time :: real
  sr_total_received :: real
  sr_format :: string
  sr_bandwidth :: real

text \<open>The interval line of the client, line 171.\<close>

record rate_sample =
  rs_connection_id :: int
  rs_client_ip :: string
  rs_client_port :: int
  rs_interval_elapsed_time :: real
  rs_elapsed_time :: real
  rs_interval_transfer :: real
  rs_format :: string
  rs_interval_bandwidth :: real

text \<open>The final line of the client, line 255.\<close>

record final_summary =
  fs_client_ip :: string
  fs_client_port :: int
  fs_elapsed_time :: real
  fs_total_sent :: real
  fs_format :: string
  fs_bandwidth :: real

datatype line =
    Server_connected address address
  | Server_header
  | Server_stats server_report
  | Client_connecting int string int
  | Client_connected int string int
  | Interval_stats rate_sample
  | Rule_line
  | Client_header
  | Client_summary final_summary
  | Error_line string

text \<open>What a session passes to \<^verbatim>\<open>sendall\<close>: the START line, which carries the start
  time, or raw bytes.\<close>

datatype packet = START real | Raw bytes

section \<open>Unit conversion\<close>

text \<open>
  Lines 120-125 of \<open>handle_client\<close> and, word for word, lines 245-250 of \<open>client\<close>:
  the byte count and the bandwidth are both divided by 1000 for KB and by 1000000 for MB;
  any other format string leaves them as they are.
\<close>

definition convert_summary :: "string \<Rightarrow> real \<times> real \<Rightarrow> real \<times> real" where
  "convert_summary format tb =
     (case tb of (total_bytes, bandwidth) \<Rightarrow>
        if format = ''KB'' then (total_bytes / 1000, bandwidth / 1000)
        else if format = ''MB'' then (total_bytes / 1000000, bandwidth / 1000000)
        else (total_bytes, bandwidth))"

text \<open>
  Lines 164-168 of \<open>print_interval_stats\<close>: for KB the transfer is divided by 1024 and
  the bandwidth multiplied by 1024; for MB the transfer is divided by 1024 * 1024.
\<close>

definition convert_interval :: "string \<Rightarrow> real \<times> real \<Rightarrow> real \<times> real" where
  "convert_interval format tb =
     (case tb of (interval_transfer, interval_bandwidth) \<Rightarrow>
        if format = ''KB'' then (interval_transfer / 1024, interval_bandwidth * 1024)
        else if format = ''MB'' then (interval_transfer / (1024 * 1024), interval_bandwidth)
        else (interval_transfer, interval_bandwidth))"

section \<open>The server side: \<open>handle_client\<close>\<close>

text \<open>
  An accepted connection is modelled by what its owner observes: the payloads that the
  successive calls \<^verbatim>\<open>conn.recv(1000)\<close> return, the socket's own address, and the readings
  of \<^verbatim>\<open>time.time()\<close> in the order of the calls. Once the listed payloads are used up the
  peer has closed the connection, and every further \<^verbatim>\<open>recv\<close> returns the empty byte
  string.
\<close>

record server_conn =
  conn_recvs :: "bytes list"
  conn_sockname :: address
  conn_clock :: "nat \<Rightarrow> real"

text \<open>
  The loop of lines 108-113. It has no exit but the \<^verbatim>\<open>break\<close> after the marker, so it is
  a partial function: \<open>None\<close> is the loop that never ends. The result is the counter
  \<open>total_received\<close> and the list of byte strings sent back.
\<close>

partial_function (option) receive_loop :: "bytes list \<Rightarrow> int \<Rightarrow> (int \<times> bytes list) option" where
  "receive_loop recvs total_received =
     (case recvs of
        [] \<Rightarrow> receive_loop [] (total_received + int (length ([] :: bytes)))
      | data # rest \<Rightarrow>
          if data = BYE then Some (total_received + int (length data), [ACK_BYE])
          else receive_loop rest (total_received + int (length data)))"

record server_session =
  ss_total_received :: int
  ss_sent :: "bytes list"
  ss_lines :: "line list"

definition handle_client :: "server_conn \<Rightarrow> address \<Rightarrow> string \<Rightarrow> (py_error + server_session) option" where
  "handle_client conn addr format =
     (let start_time = conn_clock conn 0 in
      case receive_loop (conn_recvs conn) 0 of
        None \<Rightarrow> None
      | Some (total_received, sent) \<Rightarrow>
          let end_time = conn_clock conn 1;
              elapsed_time = end_time - start_time
          in if elapsed_time = 0 then Some (Inl ZeroDivisionError)
             else
               let bandwidth = real_of_int total_received / elapsed_time;
                   converted = convert_summary format (real_of_int total_received, bandwidth)
               in Some (Inr \<lparr>ss_total_received = total_received,
                              ss_sent = sent,
                              ss_lines =
                                [Server_connected addr (conn_sockname conn),
                                 Server_header,
                                 Server_stats \<lparr>sr_addr = addr,
                                               sr_elapsed_time = elapsed_time,
                                               sr_total_received = fst converted,
                                               sr_format = format,
                                               sr_bandwidth = snd converted\<rparr>]\<rparr>))"

section \<open>The client side: \<open>print_interval_stats\<close> and \<open>client\<close>\<close>

text \<open>
  Line 176 attaches an attribute \<^verbatim>\<open>prev_total_sent\<close> to the function object
  \<^verbatim>\<open>print_interval_stats\<close>: one value for the whole process, which every thread can
  reach. No statement of the module assigns it again, so the model hands its value to
  the functions that could read it, as the first argument \<open>attr\<close>.
\<close>

definition module_attr_prev_total_sent :: int where
  "module_attr_prev_total_sent = 0"

text \<open>
  \<open>print_interval_stats\<close>, lines 154-171. The argument \<open>current_time\<close> is the reading of
  \<^verbatim>\<open>time.time()\<close> of line 156. The division by \<open>interval\<close> of line 161 raises
  \<^verbatim>\<open>ZeroDivisionError\<close> when \<open>interval\<close> is 0. The printed line is the result.
\<close>

definition print_interval_stats ::
  "int \<Rightarrow> real \<Rightarrow> int \<Rightarrow> string \<Rightarrow> int \<Rightarrow> real \<Rightarrow> int \<Rightarrow> string \<Rightarrow> int \<Rightarrow> int \<Rightarrow> py_error + rate_sample" where
  "print_interval_stats attr current_time connection_id client_ip client_port start_time
       prev_total_sent format interval total_sent =
     (let elapsed_time = current_time - start_time;
          interval_elapsed_time = elapsed_time - real_of_int interval;
          interval_transfer = total_sent - prev_total_sent
      in if interval = 0 then Inl ZeroDivisionError
         else
           let interval_bandwidth =
                 (real_of_int interval_transfer / (1024 * 1024)) / real_of_int interval;
               converted = convert_interval format (real_of_int interval_transfer, interval_bandwidth)
           in Inr \<lparr>rs_connection_id = connection_id,
                    rs_client_ip = client_ip,
                    rs_client_port = client_port,
                    rs_interval_elapsed_time = interval_elapsed_time,
                    rs_elapsed_time = elapsed_time,
                    rs_interval_transfer = fst converted,
                    rs_format = format,
                    rs_interval_bandwidth = snd converted\<rparr>)"

text \<open>
  What one client session observes of the world: the readings of \<^verbatim>\<open>time.time()\<close> in the
  order of its calls, the address \<^verbatim>\<open>s.getsockname()\<close> returns, and what the
  \<^verbatim>\<open>s.recv(1000)\<close> of line 239 returns: \<open>Some data\<close> (the empty byte string when the
  server has closed the connection), or \<open>None\<close> when the call never returns (the socket
  has no timeout). \<^verbatim>\<open>connect\<close> and \<^verbatim>\<open>sendall\<close> are taken to succeed.
\<close>

record session_env =
  env_clock :: "nat \<Rightarrow> real"
  env_sockname :: address
  env_reply :: "bytes option"

text \<open>The values that stay fixed while a session's loop runs.\<close>

record session_ctx =
  cx_attr :: int
  cx_clock :: "nat \<Rightarrow> real"
  cx_connection_id :: int
  cx_client_ip :: string
  cx_client_port :: int
  cx_start_time :: real
  cx_format :: string
  cx_interval :: "int option"

text \<open>
  The local variables that the loops of \<open>client\<close> update, with the number of clock
  readings made so far, what has been passed to \<^verbatim>\<open>sendall\<close> and what has been printed.
  \<open>last_print_time\<close> is bound by line 206 only when an interval is given, and read only
  then.
\<close>

record cstate =
  total_sent :: int
  prev_total_sent :: int
  last_print_time :: real
  ticks :: nat
  sends :: "packet list"
  prints :: "line list"

text \<open>
  Lines 221-224, and again lines 231-234: the interval check at the end of each
  iteration. \<^verbatim>\<open>and\<close> short-circuits, so the clock is read only when an interval is
  given; a report reads it twice more (line 156 and line 223).
\<close>

definition report_if_due :: "session_ctx \<Rightarrow> cstate \<Rightarrow> py_error + cstate" where
  "report_if_due cx st =
     (case cx_interval cx of
        None \<Rightarrow> Inr st
      | Some interval \<Rightarrow>
          if cx_clock cx (ticks st) - last_print_time st \<ge> real_of_int interval then
            (case print_interval_stats (cx_attr cx) (cx_clock cx (ticks st + 1))
                    (cx_connection_id cx) (cx_client_ip cx) (cx_client_port cx)
                    (cx_start_time cx) (prev_total_sent st) (cx_format cx) interval
                    (total_sent st) of
               Inl e \<Rightarrow> Inl e
             | Inr sample \<Rightarrow>
                 Inr (st\<lparr>prints := prints st @ [Interval_stats sample],
                          last_print_time := cx_clock cx (ticks st + 2),
                          prev_total_sent := total_sent st,
                          ticks := ticks st + 3\<rparr>))
          else Inr (st\<lparr>ticks := ticks st + 1\<rparr>))"

lemma report_if_due_total_sent:
  "report_if_due cx st = Inr st' \<Longrightarrow> total_sent st' = total_sent st"
  by (auto simp: report_if_due_def split: option.splits if_splits sum.splits)

text \<open>The loop of lines 217-224, for a session limited by a byte count.\<close>

function send_bytes_loop :: "session_ctx \<Rightarrow> int \<Rightarrow> cstate \<Rightarrow> py_error + cstate" where
  "send_bytes_loop cx num_bytes st =
     (if total_sent st < num_bytes then
        (let to_send = min 1000 (num_bytes - total_sent st) in
         case report_if_due cx
                (st\<lparr>sends := sends st @ [Raw (replicate (nat to_send) (CHR ''0''))],
                    total_sent := total_sent st + to_send\<rparr>) of
           Inl e \<Rightarrow> Inl e
         | Inr st' \<Rightarrow> send_bytes_loop cx num_bytes st')
      else Inr st)"
  by pat_completeness auto
termination
  by (relation "measure (\<lambda>(cx, num_bytes, st). nat (num_bytes - total_sent st))")
     (auto dest!: report_if_due_total_sent)

declare send_bytes_loop.simps [simp del]

text \<open>
  The loop of lines 228-234, for a session limited by a duration. It ends only when the
  clock reaches \<open>end_time\<close>, so it is a partial function.
\<close>

partial_function (option) send_duration_loop ::
  "session_ctx \<Rightarrow> real \<Rightarrow> cstate \<Rightarrow> (py_error + cstate) option" where
  "send_duration_loop cx end_time st =
     (if cx_clock cx (ticks st) < end_time then
        (case report_if_due cx
                (st\<lparr>ticks := ticks st + 1,
                    sends := sends st @ [Raw (replicate 1000 (CHR ''0''))],
                    total_sent := total_sent st + 1000\<rparr>) of
           Inl e \<Rightarrow> Some (Inl e)
         | Inr st' \<Rightarrow> send_duration_loop cx end_time st')
      else Some (Inr (st\<lparr>ticks := ticks st + 1\<rparr>)))"

text \<open>
  What a session that returned leaves behind: the counter \<open>total_sent\<close> as the loop left
  it (line 246 or 249 rebinds the name to the converted value, which the summary line
  carries), everything passed to \<^verbatim>\<open>sendall\<close>, and everything printed.
\<close>

record client_result =
  cr_total_sent :: int
  cr_sends :: "packet list"
  cr_prints :: "line list"

text \<open>
  Lines 237-255: the marker, the wait for the acknowledgment, and the summary. The
  division of line 242 raises when no time has elapsed. A reply other than
  \<^verbatim>\<open>ACK: BYE\<close> falls through the \<^verbatim>\<open>if\<close>, and the function returns.
\<close>

definition finish_session :: "session_ctx \<Rightarrow> bytes option \<Rightarrow> cstate \<Rightarrow> (py_error + client_result) option" where
  "finish_session cx reply st =
     (let sent = sends st @ [Raw BYE] in
      case reply of
        None \<Rightarrow> None
      | Some data \<Rightarrow>
          if data = ACK_BYE then
            (let elapsed_time = cx_clock cx (ticks st) - cx_start_time cx in
             if elapsed_time = 0 then Some (Inl ZeroDivisionError)
             else
               let bandwidth = real_of_int (total_sent st) / elapsed_time;
                   converted = convert_summary (cx_format cx) (real_of_int (total_sent st), bandwidth)
               in Some (Inr \<lparr>cr_total_sent = total_sent st,
                              cr_sends = sent,
                              cr_prints = prints st @
                                [Rule_line, Client_header,
                                 Client_summary \<lparr>fs_client_ip = cx_client_ip cx,
                                                 fs_client_port = cx_client_port cx,
                                                 fs_elapsed_time = elapsed_time,
                                                 fs_total_sent = fst converted,
                                                 fs_format = cx_format cx,
                                                 fs_bandwidth = snd converted\<rparr>]\<rparr>))
          else Some (Inr \<lparr>cr_total_sent = total_sent st,
                           cr_sends = sent,
                           cr_prints = prints st\<rparr>))"

text \<open>
  Lines 216-234: the byte-limited loop when \<open>num_bytes\<close> is given, else the
  duration-limited loop when \<open>duration\<close> is given (line 227 sets its deadline), else
  nothing.
\<close>

definition send_data ::
  "session_ctx \<Rightarrow> int option \<Rightarrow> int option \<Rightarrow> cstate \<Rightarrow> (py_error + cstate) option" where
  "send_data cx num_bytes duration st =
     (case num_bytes of
        Some n \<Rightarrow> Some (send_bytes_loop cx n st)
      | None \<Rightarrow>
          (case duration of
             Some d \<Rightarrow> send_duration_loop cx (cx_start_time cx + real_of_int d) st
           | None \<Rightarrow> Some (Inr st)))"

text \<open>\<open>client\<close>, lines 195-255. The first clock reading is \<open>start_time\<close>.\<close>

definition client ::
  "int \<Rightarrow> session_env \<Rightarrow> string \<Rightarrow> int \<Rightarrow> int option \<Rightarrow> int option \<Rightarrow> string \<Rightarrow> int option \<Rightarrow> int
   \<Rightarrow> (py_error + client_result) option" where
  "client attr env server_ip port num_bytes duration format interval connection_id =
     (let start_time = env_clock env 0;
          cx = \<lparr>cx_attr = attr,
                cx_clock = env_clock env,
                cx_connection_id = connection_id,
                cx_client_ip = fst (env_sockname env),
                cx_client_port = snd (env_sockname env),
                cx_start_time = start_time,
                cx_format = format,
                cx_interval = interval\<rparr>;
          st = \<lparr>total_sent = 0,
                prev_total_sent = 0,
                last_print_time = start_time,
                ticks = 1,
                sends = [START start_time],
                prints = [Client_connecting connection_id server_ip port,
                          Client_connected connection_id server_ip port]\<rparr>
      in case send_data cx num_bytes duration st of
           None \<Rightarrow> None
         | Some (Inl e) \<Rightarrow> Some (Inl e)
         | Some (Inr st') \<Rightarrow> finish_session cx (env_reply env) st')"

section \<open>The entry point: \<open>main\<close>\<close>

text \<open>The namespace that \<^verbatim>\<open>parser.parse_args()\<close> returns, lines 45-57.\<close>

record args =
  arg_server :: bool
  arg_bind :: string
  arg_port :: int
  arg_format :: string
  arg_num :: "int option"
  arg_client :: bool
  arg_serverip :: string
  arg_time :: "int option"
  arg_interval :: "int option"
  arg_connections :: int

text \<open>
  What a run of \<open>main\<close> that came to an end did: the lines \<open>main\<close> itself printed, what
  each submitted \<open>client\<close> call did (one entry for each connection attempted), and the
  exception that left \<open>main\<close>, if one did.
\<close>

record main_result =
  mr_lines :: "line list"
  mr_sessions :: "(py_error + client_result) list"
  mr_raised :: "py_error option"

text \<open>
  \<open>server\<close>, lines 90-141: after binding and listening, the accept loop of line 138 is
  \<^verbatim>\<open>while True\<close> with no \<^verbatim>\<open>break\<close> and no \<^verbatim>\<open>return\<close>, so the call never returns. Each
  connection it accepts is served by a run of \<open>handle_client\<close> in a thread of its own.
\<close>

definition server :: "string \<Rightarrow> int \<Rightarrow> string \<Rightarrow> main_result option" where
  "server bind_ip port format = None"

text \<open>
  Lines 80-81: \<^verbatim>\<open>future.result()\<close> raises again what the session raised, so the first
  error in the order of submission leaves the loop.
\<close>

fun first_error :: "(py_error + client_result) list \<Rightarrow> py_error option" where
  "first_error [] = None"
| "first_error (Inl e # rs) = Some e"
| "first_error (Inr r # rs) = first_error rs"

text \<open>
  Lines 76-81: the sessions run in threads of a pool with one worker for each; session
  \<open>i\<close> (counted from 0) observes the environment \<open>envs i\<close> and gets the connection id
  \<open>i + 1\<close>. Each starts with the module's value of the function attribute. The pool
  raises \<^verbatim>\<open>ValueError\<close> when created with no worker. Leaving the \<^verbatim>\<open>with\<close> block
  waits for every session, so the block comes to an end only if all of them do.
\<close>

definition run_clients :: "args \<Rightarrow> int option \<Rightarrow> (nat \<Rightarrow> session_env) \<Rightarrow> main_result option" where
  "run_clients a time envs =
     (if arg_connections a \<le> 0 then
        Some \<lparr>mr_lines = [], mr_sessions = [], mr_raised = Some ValueError\<rparr>
      else
        (case those (map (\<lambda>i. client module_attr_prev_total_sent (envs i) (arg_serverip a)
                                 (arg_port a) (arg_num a) time (arg_format a)
                                 (arg_interval a) (int i + 1))
                       [0..<nat (arg_connections a)]) of
           None \<Rightarrow> None
         | Some rs \<Rightarrow> Some \<lparr>mr_lines = [], mr_sessions = rs, mr_raised = first_error rs\<rparr>))"

text \<open>\<open>main\<close>, lines 59-81, from the parsed arguments.\<close>

definition main :: "args \<Rightarrow> (nat \<Rightarrow> session_env) \<Rightarrow> main_result option" where
  "main a envs =
     (if \<not> arg_server a \<and> \<not> arg_client a then
        Some \<lparr>mr_lines = [Error_line ''Error: you must run either in server or client mode.''],
              mr_sessions = [], mr_raised = None\<rparr>
      else if arg_server a then server (arg_bind a) (arg_port a) (arg_format a)
      else if arg_client a then
        (if arg_num a = None \<and> arg_time a = None then run_clients a (Some 25) envs
         else if arg_num a \<noteq> None \<and> arg_time a \<noteq> None then
           Some \<lparr>mr_lines = [Error_line ''Error: you cannot use both --num and --time at the same time.''],
                 mr_sessions = [], mr_raised = None\<rparr>
         else run_clients a (arg_time a) envs)
      else Some \<lparr>mr_lines = [], mr_sessions = [], mr_raised = None\<rparr>)"

text \<open>
  Lines 258-259: the script calls \<open>main\<close> and ends. The interpreter exits with status 0
  when \<open>main\<close> returned and with status 1 when an exception left it.
\<close>

definition exit_status :: "main_result \<Rightarrow> int" where
  "exit_status r = (case mr_raised r of None \<Rightarrow> 0 | Some e \<Rightarrow> 1)"

section \<open>Concrete runs\<close>

text \<open>
  Environments for the worked runs below. \<open>steady_clock\<close> advances 8 seconds between two
  readings, \<open>second_clock\<close> one second; \<open>stalled_clock\<close> reads 0 once and 5 ever after (a
  first \<^verbatim>\<open>sendall\<close> that blocks for five seconds).
\<close>

definition steady_clock :: "nat \<Rightarrow> real" where
  "steady_clock k = 8 * real k"

definition second_clock :: "nat \<Rightarrow> real" where
  "second_clock k = real k"

definition stalled_clock :: "nat \<Rightarrow> real" where
  "stalled_clock k = (if k = 0 then 0 else 5)"

definition peer_addr :: address where
  "peer_addr = (''10.0.0.2'', 40000)"

definition local_addr :: address where
  "local_addr = (''10.0.0.1'', 8088)"

text \<open>A peer that sends five bytes and then the marker, each read by one \<^verbatim>\<open>recv\<close>.\<close>

definition five_bytes_conn :: server_conn where
  "five_bytes_conn =
     \<lparr>conn_recvs = [''00000'', ''BYE''], conn_sockname = local_addr, conn_clock = steady_clock\<rparr>"

text \<open>A peer that sends five bytes and closes the connection.\<close>

definition closed_conn :: server_conn where
  "closed_conn =
     \<lparr>conn_recvs = [''00000''], conn_sockname = local_addr, conn_clock = steady_clock\<rparr>"

text \<open>A server that acknowledges the marker, seen by clients with the three clocks.\<close>

definition steady_env :: session_env where
  "steady_env = \<lparr>env_clock = steady_clock, env_sockname = peer_addr, env_reply = Some ''ACK: BYE''\<rparr>"

definition second_env :: session_env where
  "second_env = \<lparr>env_clock = second_clock, env_sockname = peer_addr, env_reply = Some ''ACK: BYE''\<rparr>"

definition stalled_env :: session_env where
  "stalled_env = \<lparr>env_clock = stalled_clock, env_sockname = peer_addr, env_reply = Some ''ACK: BYE''\<rparr>"

text \<open>A server that closes the connection instead of acknowledging.\<close>

definition hangup_env :: session_env where
  "hangup_env = \<lparr>env_clock = steady_clock, env_sockname = peer_addr, env_reply = Some []\<rparr>"

text \<open>
  The byte-limited session of \<open>stalled_env\<close> with a report interval of one second, after
  its first chunk of 1000 bytes: the values that stay fixed, and the local variables.
\<close>

definition stalled_ctx :: session_ctx where
  "stalled_ctx =
     \<lparr>cx_attr = 0, cx_clock = stalled_clock, cx_connection_id = 1,
      cx_client_ip = ''10.0.0.2'', cx_client_port = 40000, cx_start_time = 0,
      cx_format = ''B'', cx_interval = Some 1\<rparr>"

definition first_chunk_sent :: cstate where
  "first_chunk_sent =
     \<lparr>total_sent = 1000, prev_total_sent = 0, last_print_time = 0, ticks = 1,
      sends = [START 0, Raw (replicate 1000 (CHR ''0''))],
      prints = [Client_connecting 1 ''10.0.0.1'' 8088, Client_connected 1 ''10.0.0.1'' 8088]\<rparr>"

text \<open>Parsed command lines, and the environments that the sessions of a run observe.\<close>

definition no_mode_args :: args where
  "no_mode_args =
     \<lparr>arg_server = False, arg_bind = [], arg_port = 8088, arg_format = ''MB'',
      arg_num = None, arg_client = False, arg_serverip = ''127.0.0.1'', arg_time = None,
      arg_interval = None, arg_connections = 1\<rparr>"

definition both_limits_args :: args where
  "both_limits_args =
     \<lparr>arg_server = False, arg_bind = [], arg_port = 8088, arg_format = ''MB'',
      arg_num = Some 5000, arg_client = True, arg_serverip = ''127.0.0.1'', arg_time = Some 10,
      arg_interval = None, arg_connections = 1\<rparr>"

definition one_client_args :: args where
  "one_client_args =
     \<lparr>arg_server = False, arg_bind = [], arg_port = 8088, arg_format = ''MB'',
      arg_num = Some 1000, arg_client = True, arg_serverip = ''127.0.0.1'', arg_time = None,
      arg_interval = None, arg_connections = 1\<rparr>"

definition two_clients_args :: args where
  "two_clients_args =
     \<lparr>arg_server = False, arg_bind = [], arg_port = 8088, arg_format = ''B'',
      arg_num = Some 1000, arg_client = True, arg_serverip = ''127.0.0.1'', arg_time = None,
      arg_interval = Some 1, arg_connections = 2\<rparr>"

definition all_steady :: "nat \<Rightarrow> session_env" where
  "all_steady i = steady_env"

definition all_hangup :: "nat \<Rightarrow> session_env" where
  "all_hangup i = hangup_env"

text \<open>
  A duration-limited run of three seconds with two sessions: the server closes the
  connection of the first instead of acknowledging, and acknowledges the second.
\<close>

definition timed_two_args :: args where
  "timed_two_args =
     \<lparr>arg_server = False, arg_bind = [], arg_port = 8088, arg_format = ''B'',
      arg_num = None, arg_client = True, arg_serverip = ''127.0.0.1'', arg_time = Some 3,
      arg_interval = None, arg_connections = 2\<rparr>"

definition second_hangup_env :: session_env where
  "second_hangup_env =
     \<lparr>env_clock = second_clock, env_sockname = peer_addr, env_reply = Some []\<rparr>"

definition hangup_then_acked :: "nat \<Rightarrow> session_env" where
  "hangup_then_acked i = (if i = 0 then second_hangup_env else second_env)"

definition steady_then_stalled :: "nat \<Rightarrow> session_env" where
  "steady_then_stalled i = (if i = 0 then steady_env else stalled_env)"

section \<open>The receive loop\<close>

lemma receive_loop_marker:
  "BYE \<notin> set pre \<Longrightarrow>
   receive_loop (pre @ BYE # rest) t = Some (t + int (length (concat pre)) + 3, [ACK_BYE])"
proof (induction pre arbitrary: t)
  case Nil
  show ?case by (subst receive_loop.simps) (simp add: BYE_def)
next
  case (Cons d pre)
  then show ?case by (subst receive_loop.simps) auto
qed

lemma receive_loop_returns_marker:
  assumes "receive_loop recvs t = Some r"
  shows "BYE \<in> set recvs"
proof (rule receive_loop.raw_induct[OF _ assms])
  fix f recvs t r
  assume IH: "\<And>recvs t r. f recvs t = Some r \<Longrightarrow> BYE \<in> set recvs"
    and step: "(case recvs of
        [] \<Rightarrow> f [] (t + int (length ([] :: bytes)))
      | data # rest \<Rightarrow>
          if data = BYE then Some (t + int (length data), [ACK_BYE])
          else f rest (t + int (length data))) = Some r"
  show "BYE \<in> set recvs"
  proof (cases recvs)
    case Nil
    with step have "f [] t = Some r" by simp
    from IH[OF this] show ?thesis by simp
  next
    case (Cons d rest)
    show ?thesis
    proof (cases "d = BYE")
      case True
      with Cons show ?thesis by simp
    next
      case False
      with step Cons have "f rest (t + int (length d)) = Some r" by simp
      from IH[OF this] Cons show ?thesis by simp
    qed
  qed
qed

lemma receive_loop_spins:
  "BYE \<notin> set recvs \<Longrightarrow> receive_loop recvs t = None"
  using receive_loop_returns_marker by (cases "receive_loop recvs t") auto

text \<open>
  C1, as the code has it. A receive-mode session whose \<^verbatim>\<open>recv\<close> calls return payloads
  of \<open>k\<close> bytes in all, none of them the marker, and then the marker \<^verbatim>\<open>BYE\<close>, ends its
  loop with \<open>total_received = k + 3\<close>: line 110 adds the length of every payload read,
  the marker's three bytes included, before line 111 tests for the marker. The printed
  count is that number divided by the divisor of the format. (The clock must have moved
  between the two readings, or line 117 divides by zero.)
\<close>

theorem handle_client_counts_marker:
  assumes "BYE \<notin> set chunks"
    and "conn_recvs conn = chunks @ [BYE]"
    and "conn_clock conn 1 \<noteq> conn_clock conn 0"
  shows "\<exists>r rep. handle_client conn addr format = Some (Inr r) \<and>
           ss_total_received r = int (length (concat chunks)) + 3 \<and>
           last (ss_lines r) = Server_stats rep \<and>
           sr_total_received rep =
             real_of_int (int (length (concat chunks)) + 3) /
               (if format = ''KB'' then 1000 else if format = ''MB'' then 1000000 else 1)"
proof -
  from assms(1,2) have "receive_loop (conn_recvs conn) 0 =
      Some (int (length (concat chunks)) + 3, [ACK_BYE])"
    using receive_loop_marker[of chunks "[]" 0] by simp
  with assms(3) show ?thesis
    by (simp add: handle_client_def Let_def convert_summary_def)
qed

theorem handle_client_counts_marker_witness:
  "\<exists>r rep. handle_client five_bytes_conn peer_addr ''B'' = Some (Inr r) \<and>
     ss_total_received r = 8 \<and> last (ss_lines r) = Server_stats rep \<and> sr_total_received rep = 8"
  using handle_client_counts_marker[of "[''00000'']" five_bytes_conn peer_addr "''B''"]
  by (simp add: five_bytes_conn_def steady_clock_def BYE_def)

text \<open>
  C1 as stated fails: fed the five bytes \<^verbatim>\<open>00000\<close> and then \<^verbatim>\<open>BYE\<close>, the session
  reports 8 bytes, not 5.
\<close>

theorem handle_client_five_bytes_reports_eight:
  "conn_recvs five_bytes_conn = [''00000'', ''BYE''] \<and>
   map_option (map_sum id ss_lines) (handle_client five_bytes_conn peer_addr ''B'') =
     Some (Inr [Server_connected peer_addr local_addr, Server_header,
                Server_stats \<lparr>sr_addr = peer_addr, sr_elapsed_time = 8, sr_total_received = 8,
                              sr_format = ''B'', sr_bandwidth = 1\<rparr>])"
  by (simp add: handle_client_def five_bytes_conn_def steady_clock_def receive_loop.simps
        BYE_def ACK_BYE_def convert_summary_def)

text \<open>
  C2. When the peer closes the connection without sending the marker, every further
  \<^verbatim>\<open>recv\<close> returns the empty byte string, which is not the marker: the loop of lines
  108-113 has no other exit, so \<open>handle_client\<close> never returns and prints no report.
  Here the peer sends five bytes and closes.
\<close>

theorem handle_client_peer_close_never_returns:
  "handle_client closed_conn peer_addr ''MB'' = None"
  by (simp add: handle_client_def closed_conn_def receive_loop_spins BYE_def)

section \<open>The send loops\<close>

lemma report_if_due_sends:
  "report_if_due cx st = Inr st' \<Longrightarrow> sends st' = sends st"
  by (auto simp: report_if_due_def split: option.splits if_splits sum.splits)

text \<open>
  The chunking that the specification describes for a byte-limited session, written
  down on its own to compare the loop with: chunks of 1000 bytes, then one last chunk
  with what remains.
\<close>

definition capped_chunks :: "int \<Rightarrow> bytes list" where
  "capped_chunks n =
     replicate (nat (n div 1000)) (replicate 1000 (CHR ''0'')) @
     (if n mod 1000 = 0 then [] else [replicate (nat (n mod 1000)) (CHR ''0'')])"

lemma capped_chunks_step:
  assumes "0 < d"
  shows "capped_chunks d = replicate (nat (min 1000 d)) (CHR ''0'') # capped_chunks (d - min 1000 d)"
proof (cases "d < 1000")
  case True
  with assms have "d div 1000 = 0" "d mod 1000 = d" by simp_all
  with assms True show ?thesis by (simp add: capped_chunks_def)
next
  case False
  then have ge: "1000 \<le> d" by simp
  then have dv: "(d - 1000) div 1000 = d div 1000 - 1" by simp
  have md: "(d - 1000) mod 1000 = d mod 1000" by simp
  from ge have "1 \<le> d div 1000" by simp
  then have "nat (d div 1000) = Suc (nat (d div 1000 - 1))" by simp
  with ge dv md show ?thesis by (simp add: capped_chunks_def replicate_app_Cons_same)
qed

lemma send_bytes_loop_result:
  "send_bytes_loop cx n st = Inr st' \<Longrightarrow> total_sent st \<le> n \<Longrightarrow>
   total_sent st' = n \<and> sends st' = sends st @ map Raw (capped_chunks (n - total_sent st))"
proof (induction cx n st rule: send_bytes_loop.induct)
  case (1 cx n st)
  show ?case
  proof (cases "total_sent st < n")
    case False
    with "1.prems" show ?thesis
      by (simp add: send_bytes_loop.simps capped_chunks_def)
  next
    case True
    define to_send where "to_send = min 1000 (n - total_sent st)"
    define st1 where "st1 = st\<lparr>sends := sends st @ [Raw (replicate (nat to_send) (CHR ''0''))],
                    total_sent := total_sent st + to_send\<rparr>"
    from True "1.prems"(1) obtain st2 where r: "report_if_due cx st1 = Inr st2"
      and l: "send_bytes_loop cx n st2 = Inr st'"
      by (subst (asm) send_bytes_loop.simps)
         (auto simp: Let_def st1_def to_send_def split: sum.splits)
    have t2: "total_sent st2 = total_sent st + to_send"
      using report_if_due_total_sent[OF r] by (simp add: st1_def)
    have s2: "sends st2 = sends st @ [Raw (replicate (nat to_send) (CHR ''0''))]"
      using report_if_due_sends[OF r] by (simp add: st1_def)
    from True have le: "total_sent st2 \<le> n" by (simp add: t2 to_send_def)
    have IH: "total_sent st' = n \<and>
        sends st' = sends st2 @ map Raw (capped_chunks (n - total_sent st2))"
      using "1.IH"[OF True to_send_def r[unfolded st1_def] l le] .
    from True have "capped_chunks (n - total_sent st) =
        replicate (nat to_send) (CHR ''0'') # capped_chunks (n - total_sent st - to_send)"
      unfolding to_send_def by (intro capped_chunks_step) simp
    with IH show ?thesis by (simp add: s2 t2 algebra_simps)
  qed
qed

lemma finish_session_keeps:
  "finish_session cx reply st = Some (Inr r) \<Longrightarrow>
   cr_total_sent r = total_sent st \<and> cr_sends r = sends st @ [Raw BYE]"
  by (auto simp: finish_session_def Let_def split: option.splits if_splits)

lemma client_num_bytes_returns:
  "env_reply env = Some data \<Longrightarrow>
   \<exists>res. client attr env server_ip port (Some n) duration format interval connection_id =
           Some res"
  by (auto simp: client_def send_data_def finish_session_def Let_def split: sum.splits)

text \<open>
  C3. A byte-limited session with a positive \<open>num_bytes = n\<close> that completes has sent,
  between the START line and the marker, exactly \<open>n div 1000\<close> chunks of 1000 bytes and
  then, when 1000 does not divide \<open>n\<close>, one last chunk of \<open>n mod 1000\<close> bytes; its counter
  \<open>total_sent\<close> stands at \<open>n\<close>. So no chunk is longer than 1000 bytes, the last is sized
  to reach \<open>n\<close>, and nothing is sent beyond \<open>n\<close>. (The loop itself always ends:
  \<open>send_bytes_loop\<close> is a total function, and by \<open>client_num_bytes_returns\<close> the
  session returns whenever its last \<^verbatim>\<open>recv\<close> does.)
\<close>

theorem client_num_bytes_exact:
  assumes "0 < n"
    and "client attr env server_ip port (Some n) duration format interval connection_id =
           Some (Inr r)"
  shows "cr_total_sent r = n \<and>
         cr_sends r = START (env_clock env 0) # map Raw (capped_chunks n) @ [Raw BYE]"
proof -
  from assms(2) obtain cx st st' where l: "send_bytes_loop cx n st = Inr st'"
    and s0: "total_sent st = 0" "sends st = [START (env_clock env 0)]"
    and f: "finish_session cx (env_reply env) st' = Some (Inr r)"
    by (auto simp: client_def send_data_def Let_def split: sum.splits)
  from assms(1) s0 have "total_sent st \<le> n" by simp
  from send_bytes_loop_result[OF l this] s0
  have "total_sent st' = n" and "sends st' = START (env_clock env 0) # map Raw (capped_chunks n)"
    by simp_all
  with finish_session_keeps[OF f] show ?thesis by simp
qed

lemma steady_run_2500:
  "client 0 steady_env ''10.0.0.1'' 8088 (Some 2500) None ''KB'' None 1 =
     Some (Inr \<lparr>cr_total_sent = 2500,
       cr_sends = [START 0, Raw (replicate 1000 (CHR ''0'')), Raw (replicate 1000 (CHR ''0'')),
                   Raw (replicate 500 (CHR ''0'')), Raw ''BYE''],
       cr_prints = [Client_connecting 1 ''10.0.0.1'' 8088, Client_connected 1 ''10.0.0.1'' 8088,
         Rule_line, Client_header,
         Client_summary \<lparr>fs_client_ip = ''10.0.0.2'', fs_client_port = 40000,
           fs_elapsed_time = 8, fs_total_sent = 5 / 2, fs_format = ''KB'',
           fs_bandwidth = 5 / 16\<rparr>]\<rparr>)"
  by (simp add: client_def send_data_def steady_env_def steady_clock_def peer_addr_def
        send_bytes_loop.simps report_if_due_def finish_session_def
        BYE_def ACK_BYE_def convert_summary_def Let_def)

theorem client_num_bytes_exact_witness:
  "(0::int) < 2500 \<and>
   (\<exists>r. client 0 steady_env ''10.0.0.1'' 8088 (Some 2500) None ''KB'' None 1 = Some (Inr r) \<and>
      cr_total_sent r = 2500 \<and>
      cr_sends r = [START 0, Raw (replicate 1000 (CHR ''0'')), Raw (replicate 1000 (CHR ''0'')),
                    Raw (replicate 500 (CHR ''0'')), Raw ''BYE''])"
  using client_num_bytes_exact[OF _ steady_run_2500] steady_run_2500 by simp

lemma send_duration_loop_chunks:
  assumes "send_duration_loop cx end_time st = Some res"
  shows "\<forall>st'. res = Inr st' \<longrightarrow>
           (\<exists>k. total_sent st' = total_sent st + 1000 * int k \<and>
                sends st' = sends st @ replicate k (Raw (replicate 1000 (CHR ''0''))))"
proof (rule send_duration_loop.raw_induct[OF _ assms])
  fix loop cx end_time st res
  assume IH: "\<And>cx end_time st res. loop cx end_time st = Some res \<Longrightarrow>
      \<forall>st'. res = Inr st' \<longrightarrow>
        (\<exists>k. total_sent st' = total_sent st + 1000 * int k \<and>
             sends st' = sends st @ replicate k (Raw (replicate 1000 (CHR ''0''))))"
    and step: "(if cx_clock cx (ticks st) < end_time then
        (case report_if_due cx
                (st\<lparr>ticks := ticks st + 1,
                    sends := sends st @ [Raw (replicate 1000 (CHR ''0''))],
                    total_sent := total_sent st + 1000\<rparr>) of
           Inl e \<Rightarrow> Some (Inl e)
         | Inr st' \<Rightarrow> loop cx end_time st')
      else Some (Inr (st\<lparr>ticks := ticks st + 1\<rparr>))) = Some res"
  show "\<forall>st'. res = Inr st' \<longrightarrow>
          (\<exists>k. total_sent st' = total_sent st + 1000 * int k \<and>
               sends st' = sends st @ replicate k (Raw (replicate 1000 (CHR ''0''))))"
  proof (cases "cx_clock cx (ticks st) < end_time")
    case False
    with step have "res = Inr (st\<lparr>ticks := ticks st + 1\<rparr>)" by simp
    then have "\<forall>st'. res = Inr st' \<longrightarrow>
        total_sent st' = total_sent st + 1000 * int 0 \<and>
        sends st' = sends st @ replicate 0 (Raw (replicate 1000 (CHR ''0'')))"
      by simp
    then show ?thesis by blast
  next
    case True
    show ?thesis
    proof (cases "report_if_due cx (st\<lparr>ticks := ticks st + 1,
                  sends := sends st @ [Raw (replicate 1000 (CHR ''0''))],
                  total_sent := total_sent st + 1000\<rparr>)")
      case (Inl e)
      with True step show ?thesis by auto
    next
      case (Inr st2)
      with True step have "loop cx end_time st2 = Some res" by simp
      from IH[OF this] have ih: "\<forall>st'. res = Inr st' \<longrightarrow>
          (\<exists>k. total_sent st' = total_sent st2 + 1000 * int k \<and>
               sends st' = sends st2 @ replicate k (Raw (replicate 1000 (CHR ''0''))))" .
      from report_if_due_total_sent[OF Inr]
      have t2: "total_sent st2 = total_sent st + 1000" by simp
      from report_if_due_sends[OF Inr]
      have s2: "sends st2 = sends st @ [Raw (replicate 1000 (CHR ''0''))]" by simp
      show ?thesis
      proof (intro allI impI)
        fix st' assume "res = Inr st'"
        with ih obtain k where "total_sent st' = total_sent st2 + 1000 * int k"
          and "sends st' = sends st2 @ replicate k (Raw (replicate 1000 (CHR ''0'')))"
          by blast
        with t2 s2 have "total_sent st' = total_sent st + 1000 * int (Suc k) \<and>
            sends st' = sends st @ replicate (Suc k) (Raw (replicate 1000 (CHR ''0'')))"
          by simp
        then show "\<exists>k. total_sent st' = total_sent st + 1000 * int k \<and>
            sends st' = sends st @ replicate k (Raw (replicate 1000 (CHR ''0'')))"
          by blast
      qed
    qed
  qed
qed

text \<open>
  C10. A duration-limited session (no byte count, a duration given) that completes has
  sent, between the START line and the marker, some number \<open>k\<close> of chunks of exactly
  1000 bytes each, and its counter \<open>total_sent\<close> stands at \<open>1000 * k\<close>, a whole multiple
  of 1000.
\<close>

theorem client_duration_multiple_of_1000:
  assumes "client attr env server_ip port None (Some d) format interval connection_id =
             Some (Inr r)"
  shows "\<exists>k. cr_total_sent r = 1000 * int k \<and>
             cr_sends r = START (env_clock env 0) #
                            replicate k (Raw (replicate 1000 (CHR ''0''))) @ [Raw BYE]"
proof -
  from assms obtain cx end_time st st' where
      l: "send_duration_loop cx end_time st = Some (Inr st')"
    and s0: "total_sent st = 0" "sends st = [START (env_clock env 0)]"
    and f: "finish_session cx (env_reply env) st' = Some (Inr r)"
    by (auto simp: client_def send_data_def Let_def split: option.splits sum.splits)
  from send_duration_loop_chunks[OF l] s0 obtain k where
      "total_sent st' = 1000 * int k"
      and "sends st' = START (env_clock env 0) # replicate k (Raw (replicate 1000 (CHR ''0'')))"
    by auto
  with finish_session_keeps[OF f] show ?thesis by auto
qed

lemma second_run_3s:
  "client 0 second_env ''10.0.0.1'' 8088 None (Some 3) ''B'' None 1 =
     Some (Inr \<lparr>cr_total_sent = 2000,
       cr_sends = [START 0, Raw (replicate 1000 (CHR ''0'')), Raw (replicate 1000 (CHR ''0'')),
                   Raw ''BYE''],
       cr_prints = [Client_connecting 1 ''10.0.0.1'' 8088, Client_connected 1 ''10.0.0.1'' 8088,
         Rule_line, Client_header,
         Client_summary \<lparr>fs_client_ip = ''10.0.0.2'', fs_client_port = 40000,
           fs_elapsed_time = 4, fs_total_sent = 2000, fs_format = ''B'',
           fs_bandwidth = 500\<rparr>]\<rparr>)"
  by (simp add: client_def send_data_def second_env_def second_clock_def peer_addr_def
        send_duration_loop.simps report_if_due_def finish_session_def
        BYE_def ACK_BYE_def convert_summary_def Let_def)

theorem client_duration_multiple_of_1000_witness:
  "\<exists>r k. client 0 second_env ''10.0.0.1'' 8088 None (Some 3) ''B'' None 1 = Some (Inr r) \<and>
     cr_total_sent r = 2000 \<and> cr_total_sent r = 1000 * int k"
  using client_duration_multiple_of_1000[OF second_run_3s] second_run_3s by auto

section \<open>Reports and summaries\<close>

text \<open>
  C4, as the code has it. The summary line of a session that received the
  acknowledgment carries the byte count \<open>total_sent\<close> divided by the divisor of the
  format (1000 for KB, 1000000 for MB, 1 otherwise) and, as its bandwidth,
  \<open>total_sent / elapsed_time\<close> divided by the same divisor: bytes per second in the unit
  of the format, with no factor 8.
\<close>

theorem client_summary_bandwidth:
  assumes "client attr env server_ip port num_bytes duration format interval connection_id =
             Some (Inr r)"
    and "env_reply env = Some ACK_BYE"
  shows "\<exists>s. last (cr_prints r) = Client_summary s \<and> fs_elapsed_time s \<noteq> 0 \<and>
           fs_total_sent s = real_of_int (cr_total_sent r) /
             (if format = ''KB'' then 1000 else if format = ''MB'' then 1000000 else 1) \<and>
           fs_bandwidth s = real_of_int (cr_total_sent r) / fs_elapsed_time s /
             (if format = ''KB'' then 1000 else if format = ''MB'' then 1000000 else 1)"
proof -
  from assms(1) obtain cx st' where f: "finish_session cx (env_reply env) st' = Some (Inr r)"
    and c: "cx_format cx = format"
    by (auto simp: client_def Let_def split: option.splits sum.splits)
  with assms(2) show ?thesis
    by (auto simp: finish_session_def Let_def convert_summary_def split: if_splits)
qed

theorem client_summary_bandwidth_witness:
  "\<exists>r s. client 0 steady_env ''10.0.0.1'' 8088 (Some 2500) None ''KB'' None 1 = Some (Inr r) \<and>
     env_reply steady_env = Some ACK_BYE \<and>
     last (cr_prints r) = Client_summary s \<and> fs_elapsed_time s = 8 \<and>
     fs_total_sent s = 2500 / 1000 \<and> fs_bandwidth s = 2500 / 8 / 1000"
  using client_summary_bandwidth[OF steady_run_2500] steady_run_2500
  by (simp add: steady_env_def ACK_BYE_def)

text \<open>
  C4 as stated fails. A session that sent 2000 bytes in 8 seconds would report
  \<open>2000 * 8 / 8 / 1000000 = 0.002\<close> whatever the format; the code reports 250 with format
  B and 0.25 with format KB.
\<close>

theorem client_summary_bandwidth_follows_format:
  "map_option (map_sum id (last \<circ> cr_prints))
     (client 0 steady_env ''10.0.0.1'' 8088 (Some 2000) None ''B'' None 1) =
   Some (Inr (Client_summary \<lparr>fs_client_ip = ''10.0.0.2'', fs_client_port = 40000,
           fs_elapsed_time = 8, fs_total_sent = 2000, fs_format = ''B'',
           fs_bandwidth = 250\<rparr>)) \<and>
   map_option (map_sum id (last \<circ> cr_prints))
     (client 0 steady_env ''10.0.0.1'' 8088 (Some 2000) None ''KB'' None 1) =
   Some (Inr (Client_summary \<lparr>fs_client_ip = ''10.0.0.2'', fs_client_port = 40000,
           fs_elapsed_time = 8, fs_total_sent = 2, fs_format = ''KB'',
           fs_bandwidth = 1 / 4\<rparr>))"
  by (simp add: client_def send_data_def steady_env_def steady_clock_def peer_addr_def
        send_bytes_loop.simps report_if_due_def finish_session_def
        BYE_def ACK_BYE_def convert_summary_def Let_def)

lemma five_bytes_KB:
  "handle_client five_bytes_conn peer_addr ''KB'' =
     Some (Inr \<lparr>ss_total_received = 8, ss_sent = [''ACK: BYE''],
       ss_lines = [Server_connected peer_addr local_addr, Server_header,
                Server_stats \<lparr>sr_addr = peer_addr, sr_elapsed_time = 8,
                              sr_total_received = 1 / 125,
                              sr_format = ''KB'', sr_bandwidth = 1 / 1000\<rparr>]\<rparr>)"
  by (simp add: handle_client_def five_bytes_conn_def steady_clock_def receive_loop.simps
        BYE_def ACK_BYE_def convert_summary_def)

lemma interval_2048_KB:
  "print_interval_stats 0 8 1 ''10.0.0.2'' 40000 0 0 ''KB'' 1 2048 =
     Inr \<lparr>rs_connection_id = 1, rs_client_ip = ''10.0.0.2'', rs_client_port = 40000,
          rs_interval_elapsed_time = 7, rs_elapsed_time = 8, rs_interval_transfer = 2,
          rs_format = ''KB'', rs_interval_bandwidth = 2\<rparr>"
  by (simp add: print_interval_stats_def convert_interval_def Let_def)

text \<open>
  C7. With the format KB, the final report of the server prints the byte count divided
  by 1000, and an interval report of the client prints the bytes of the interval divided
  by 1024: the two paths use different bases for the same format.
\<close>

theorem kb_divisor_1000_final_1024_interval:
  assumes "handle_client conn addr ''KB'' = Some (Inr r)"
    and "print_interval_stats attr now connection_id client_ip client_port start_time
           sent_before ''KB'' interval sent_now = Inr s"
  shows "(\<exists>rep. last (ss_lines r) = Server_stats rep \<and>
            sr_total_received rep = real_of_int (ss_total_received r) / 1000) \<and>
         rs_interval_transfer s = real_of_int (sent_now - sent_before) / 1024"
  using assms
  by (auto simp: handle_client_def print_interval_stats_def convert_summary_def
        convert_interval_def Let_def split: option.splits if_splits)

theorem kb_divisor_1000_final_1024_interval_witness:
  "\<exists>r s. handle_client five_bytes_conn peer_addr ''KB'' = Some (Inr r) \<and>
     print_interval_stats 0 8 1 ''10.0.0.2'' 40000 0 0 ''KB'' 1 2048 = Inr s \<and>
     (\<exists>rep. last (ss_lines r) = Server_stats rep \<and> sr_total_received rep = 8 / 1000) \<and>
     rs_interval_transfer s = 2048 / 1024"
  using kb_divisor_1000_final_1024_interval[OF five_bytes_KB interval_2048_KB]
    five_bytes_KB interval_2048_KB
  by simp

text \<open>
  C8, as the code has it. When an interval is given (and is not 0) and the clock reading
  of the check is at least \<open>interval\<close> past \<open>last_print_time\<close>, the check prints one
  interval line. \<open>print_interval_stats\<close> reads the clock again and prints the window
  from \<open>elapsed_time - interval\<close> to \<open>elapsed_time\<close>, where \<open>elapsed_time\<close> is that
  reading less \<open>start_time\<close>: the last \<open>interval\<close> seconds, counted from the start of the
  session, whatever \<open>last_print_time\<close> is. The bytes printed are
  \<open>total_sent - prev_total_sent\<close>, divided by 1024 for KB and by 1024 * 1024 for MB.
  Then \<open>last_print_time\<close> becomes a third clock reading and \<open>prev_total_sent\<close> becomes
  \<open>total_sent\<close>.
\<close>

theorem report_if_due_emits:
  assumes "cx_interval cx = Some interval"
    and "interval \<noteq> 0"
    and "real_of_int interval \<le> cx_clock cx (ticks st) - last_print_time st"
  shows "\<exists>s. report_if_due cx st =
             Inr (st\<lparr>prints := prints st @ [Interval_stats s],
                      last_print_time := cx_clock cx (ticks st + 2),
                      prev_total_sent := total_sent st,
                      ticks := ticks st + 3\<rparr>) \<and>
           rs_elapsed_time s = cx_clock cx (ticks st + 1) - cx_start_time cx \<and>
           rs_interval_elapsed_time s =
             cx_clock cx (ticks st + 1) - cx_start_time cx - real_of_int interval \<and>
           rs_interval_transfer s = real_of_int (total_sent st - prev_total_sent st) /
             (if cx_format cx = ''KB'' then 1024
              else if cx_format cx = ''MB'' then 1024 * 1024 else 1)"
proof -
  from assms(2) have "\<exists>s. print_interval_stats (cx_attr cx) (cx_clock cx (ticks st + 1))
        (cx_connection_id cx) (cx_client_ip cx) (cx_client_port cx) (cx_start_time cx)
        (prev_total_sent st) (cx_format cx) interval (total_sent st) = Inr s \<and>
      rs_elapsed_time s = cx_clock cx (ticks st + 1) - cx_start_time cx \<and>
      rs_interval_elapsed_time s =
        cx_clock cx (ticks st + 1) - cx_start_time cx - real_of_int interval \<and>
      rs_interval_transfer s = real_of_int (total_sent st - prev_total_sent st) /
        (if cx_format cx = ''KB'' then 1024
         else if cx_format cx = ''MB'' then 1024 * 1024 else 1)"
    by (simp add: print_interval_stats_def convert_interval_def Let_def)
  then obtain s where "print_interval_stats (cx_attr cx) (cx_clock cx (ticks st + 1))
        (cx_connection_id cx) (cx_client_ip cx) (cx_client_port cx) (cx_start_time cx)
        (prev_total_sent st) (cx_format cx) interval (total_sent st) = Inr s"
    and "rs_elapsed_time s = cx_clock cx (ticks st + 1) - cx_start_time cx"
    and "rs_interval_elapsed_time s =
        cx_clock cx (ticks st + 1) - cx_start_time cx - real_of_int interval"
    and "rs_interval_transfer s = real_of_int (total_sent st - prev_total_sent st) /
        (if cx_format cx = ''KB'' then 1024
         else if cx_format cx = ''MB'' then 1024 * 1024 else 1)"
    by blast
  with assms(1,3) show ?thesis
    by (intro exI[of _ s]) (simp add: report_if_due_def)
qed

theorem report_if_due_emits_witness:
  "\<exists>s. report_if_due stalled_ctx first_chunk_sent =
          Inr (first_chunk_sent\<lparr>prints := prints first_chunk_sent @ [Interval_stats s],
                 last_print_time := 5, prev_total_sent := 1000, ticks := 4\<rparr>) \<and>
        rs_elapsed_time s = 5 \<and> rs_interval_elapsed_time s = 4 \<and>
        rs_interval_transfer s = 1000"
  using report_if_due_emits[of stalled_ctx 1 first_chunk_sent]
  by (simp add: stalled_ctx_def first_chunk_sent_def stalled_clock_def)

text \<open>
  C8 as stated fails on the window. The first \<^verbatim>\<open>sendall\<close> of this session takes five
  seconds, so the first check comes at 5 with \<open>last_print_time = 0\<close>, the start of the
  session: the window from \<open>last_print_time\<close> to now would be 0 to 5, and the line
  printed says 4 to 5.
\<close>

theorem client_interval_window_is_last_interval:
  "map_option (map_sum id cr_prints)
     (client 0 stalled_env ''10.0.0.1'' 8088 (Some 1000) None ''B'' (Some 1) 1) =
   Some (Inr [Client_connecting 1 ''10.0.0.1'' 8088, Client_connected 1 ''10.0.0.1'' 8088,
     Interval_stats \<lparr>rs_connection_id = 1, rs_client_ip = ''10.0.0.2'', rs_client_port = 40000,
          rs_interval_elapsed_time = 4, rs_elapsed_time = 5, rs_interval_transfer = 1000,
          rs_format = ''B'', rs_interval_bandwidth = 125 / 131072\<rparr>,
     Rule_line, Client_header,
     Client_summary \<lparr>fs_client_ip = ''10.0.0.2'', fs_client_port = 40000,
           fs_elapsed_time = 5, fs_total_sent = 1000, fs_format = ''B'',
           fs_bandwidth = 200\<rparr>])"
  by (simp add: client_def send_data_def stalled_env_def stalled_clock_def peer_addr_def
        send_bytes_loop.simps report_if_due_def finish_session_def print_interval_stats_def
        BYE_def ACK_BYE_def convert_summary_def convert_interval_def Let_def)

section \<open>The entry point and its sessions\<close>

text \<open>
  C6, as the code has it. When neither mode is chosen, and when client mode is chosen
  (without server mode) with both a byte count and a duration, \<open>main\<close> prints one error
  line and returns: no session is started, so no connection is attempted, no exception
  leaves \<open>main\<close>, and the exit status is 0.
\<close>

theorem main_usage_errors_return:
  "(\<not> arg_server a \<and> \<not> arg_client a \<longrightarrow>
      main a envs =
        Some \<lparr>mr_lines = [Error_line ''Error: you must run either in server or client mode.''],
              mr_sessions = [], mr_raised = None\<rparr>) \<and>
   (\<not> arg_server a \<and> arg_client a \<and> arg_num a \<noteq> None \<and> arg_time a \<noteq> None \<longrightarrow>
      main a envs =
        Some \<lparr>mr_lines =
                [Error_line ''Error: you cannot use both --num and --time at the same time.''],
              mr_sessions = [], mr_raised = None\<rparr>) \<and>
   ((\<not> arg_server a \<and> \<not> arg_client a) \<or>
    (\<not> arg_server a \<and> arg_client a \<and> arg_num a \<noteq> None \<and> arg_time a \<noteq> None) \<longrightarrow>
      map_option exit_status (main a envs) = Some 0)"
  by (auto simp: main_def exit_status_def)

theorem main_usage_errors_return_witness:
  "main no_mode_args all_steady =
     Some \<lparr>mr_lines = [Error_line ''Error: you must run either in server or client mode.''],
           mr_sessions = [], mr_raised = None\<rparr> \<and>
   main both_limits_args all_steady =
     Some \<lparr>mr_lines =
             [Error_line ''Error: you cannot use both --num and --time at the same time.''],
           mr_sessions = [], mr_raised = None\<rparr> \<and>
   map_option exit_status (main no_mode_args all_steady) = Some 0 \<and>
   map_option exit_status (main both_limits_args all_steady) = Some 0"
  using main_usage_errors_return[of no_mode_args all_steady]
    main_usage_errors_return[of both_limits_args all_steady]
  by (auto simp: no_mode_args_def both_limits_args_def)

text \<open>
  C6 as stated fails on the exit status: with no mode chosen, and with both limits
  given, the status is 0.
\<close>

theorem main_usage_errors_exit_zero:
  "map_option exit_status (main no_mode_args all_steady) = Some 0 \<and>
   map_option exit_status (main both_limits_args all_steady) = Some 0"
  by (simp add: main_def exit_status_def no_mode_args_def both_limits_args_def)

lemma those_nth:
  "those xs = Some ys \<Longrightarrow> length ys = length xs \<and> (\<forall>i<length xs. xs ! i = Some (ys ! i))"
proof (induction xs arbitrary: ys)
  case Nil
  then show ?case by simp
next
  case (Cons x xs)
  from Cons.prems obtain y zs where x: "x = Some y" and zs: "those xs = Some zs"
    and ys: "ys = y # zs"
    by (auto split: option.splits)
  from Cons.IH[OF zs] have "length zs = length xs" and "\<forall>i<length xs. xs ! i = Some (zs ! i)"
    by simp_all
  with x ys show ?case by (auto simp: nth_Cons split: nat.splits)
qed

lemma run_clients_sessions:
  assumes "run_clients a time envs = Some m" and "i < length (mr_sessions m)"
  shows "client module_attr_prev_total_sent (envs i) (arg_serverip a) (arg_port a) (arg_num a)
           time (arg_format a) (arg_interval a) (int i + 1) = Some (mr_sessions m ! i) \<and>
         mr_raised m = first_error (mr_sessions m)"
proof -
  let ?cs = "map (\<lambda>i. client module_attr_prev_total_sent (envs i) (arg_serverip a)
                                 (arg_port a) (arg_num a) time (arg_format a)
                                 (arg_interval a) (int i + 1))
                       [0..<nat (arg_connections a)]"
  from assms have pos: "\<not> arg_connections a \<le> 0"
    by (auto simp: run_clients_def split: if_splits)
  with assms(1) have th: "those ?cs = Some (mr_sessions m)"
    and fe: "mr_raised m = first_error (mr_sessions m)"
    by (auto simp: run_clients_def split: option.splits)
  from those_nth[OF th] assms(2) have "i < length ?cs" and "?cs ! i = Some (mr_sessions m ! i)"
    by simp_all
  with fe show ?thesis by simp
qed

lemma main_sessions:
  assumes "main a envs = Some m" and "i < length (mr_sessions m)"
  shows "client module_attr_prev_total_sent (envs i) (arg_serverip a) (arg_port a) (arg_num a)
           (if arg_num a = None \<and> arg_time a = None then Some 25 else arg_time a)
           (arg_format a) (arg_interval a) (int i + 1) = Some (mr_sessions m ! i) \<and>
         mr_raised m = first_error (mr_sessions m)"
proof -
  from assms have "run_clients a
      (if arg_num a = None \<and> arg_time a = None then Some 25 else arg_time a) envs = Some m"
    by (auto simp: main_def server_def split: if_splits)
  from run_clients_sessions[OF this assms(2)] show ?thesis .
qed

lemma report_if_due_no_summary:
  assumes "cx_interval cx \<noteq> Some 0" and "\<forall>s. Client_summary s \<notin> set (prints st)"
  shows "\<exists>st'. report_if_due cx st = Inr st' \<and> (\<forall>s. Client_summary s \<notin> set (prints st'))"
  using assms
  by (auto simp: report_if_due_def print_interval_stats_def Let_def split: option.splits)

lemma send_bytes_loop_no_summary:
  "cx_interval cx \<noteq> Some 0 \<Longrightarrow> \<forall>s. Client_summary s \<notin> set (prints st) \<Longrightarrow>
   \<exists>st'. send_bytes_loop cx n st = Inr st' \<and> (\<forall>s. Client_summary s \<notin> set (prints st'))"
proof (induction cx n st rule: send_bytes_loop.induct)
  case (1 cx n st)
  show ?case
  proof (cases "total_sent st < n")
    case False
    with "1.prems" show ?thesis by (simp add: send_bytes_loop.simps)
  next
    case True
    define to_send where "to_send = min 1000 (n - total_sent st)"
    define st1 where "st1 = st\<lparr>sends := sends st @ [Raw (replicate (nat to_send) (CHR ''0''))],
                    total_sent := total_sent st + to_send\<rparr>"
    from "1.prems"(2) have "\<forall>s. Client_summary s \<notin> set (prints st1)" by (simp add: st1_def)
    from report_if_due_no_summary[OF "1.prems"(1) this] obtain st2 where
        r: "report_if_due cx st1 = Inr st2" and p: "\<forall>s. Client_summary s \<notin> set (prints st2)"
      by blast
    from "1.IH"[OF True to_send_def r[unfolded st1_def] "1.prems"(1) p] obtain st' where
        "send_bytes_loop cx n st2 = Inr st'" and "\<forall>s. Client_summary s \<notin> set (prints st')"
      by blast
    with True r show ?thesis
      by (subst send_bytes_loop.simps) (simp add: Let_def st1_def to_send_def)
  qed
qed

lemma send_duration_loop_no_summary:
  assumes "send_duration_loop cx end_time st = Some res"
  shows "cx_interval cx \<noteq> Some 0 \<longrightarrow> (\<forall>s. Client_summary s \<notin> set (prints st)) \<longrightarrow>
         (\<exists>st'. res = Inr st' \<and> (\<forall>s. Client_summary s \<notin> set (prints st')))"
proof (rule send_duration_loop.raw_induct[OF _ assms])
  fix loop cx end_time st res
  assume IH: "\<And>cx end_time st res. loop cx end_time st = Some res \<Longrightarrow>
      cx_interval cx \<noteq> Some 0 \<longrightarrow> (\<forall>s. Client_summary s \<notin> set (prints st)) \<longrightarrow>
         (\<exists>st'. res = Inr st' \<and> (\<forall>s. Client_summary s \<notin> set (prints st')))"
    and step: "(if cx_clock cx (ticks st) < end_time then
        (case report_if_due cx
                (st\<lparr>ticks := ticks st + 1,
                    sends := sends st @ [Raw (replicate 1000 (CHR ''0''))],
                    total_sent := total_sent st + 1000\<rparr>) of
           Inl e \<Rightarrow> Some (Inl e)
         | Inr st' \<Rightarrow> loop cx end_time st')
      else Some (Inr (st\<lparr>ticks := ticks st + 1\<rparr>))) = Some res"
  show "cx_interval cx \<noteq> Some 0 \<longrightarrow> (\<forall>s. Client_summary s \<notin> set (prints st)) \<longrightarrow>
         (\<exists>st'. res = Inr st' \<and> (\<forall>s. Client_summary s \<notin> set (prints st')))"
  proof (intro impI)
    assume iv: "cx_interval cx \<noteq> Some 0" and p: "\<forall>s. Client_summary s \<notin> set (prints st)"
    show "\<exists>st'. res = Inr st' \<and> (\<forall>s. Client_summary s \<notin> set (prints st'))"
    proof (cases "cx_clock cx (ticks st) < end_time")
      case False
      with step p show ?thesis by auto
    next
      case True
      define st1 where "st1 = st\<lparr>ticks := ticks st + 1,
                    sends := sends st @ [Raw (replicate 1000 (CHR ''0''))],
                    total_sent := total_sent st + 1000\<rparr>"
      from p have "\<forall>s. Client_summary s \<notin> set (prints st1)" by (simp add: st1_def)
      from report_if_due_no_summary[OF iv this] obtain st2 where
          r: "report_if_due cx st1 = Inr st2" and p2: "\<forall>s. Client_summary s \<notin> set (prints st2)"
        by blast
      from True step r have "loop cx end_time st2 = Some res" by (simp add: st1_def)
      from IH[OF this] iv p2 show ?thesis by blast
    qed
  qed
qed

lemma client_unacknowledged:
  assumes "client attr env server_ip port num_bytes duration format interval connection_id = Some res"
    and "env_reply env = Some data" and "data \<noteq> ACK_BYE" and "interval \<noteq> Some 0"
  shows "\<exists>r. res = Inr r \<and> (\<forall>s. Client_summary s \<notin> set (cr_prints r))"
proof -
  define cx where "cx = \<lparr>cx_attr = attr,
                cx_clock = env_clock env,
                cx_connection_id = connection_id,
                cx_client_ip = fst (env_sockname env),
                cx_client_port = snd (env_sockname env),
                cx_start_time = env_clock env 0,
                cx_format = format,
                cx_interval = interval\<rparr>"
  define st where "st = \<lparr>total_sent = 0,
                prev_total_sent = 0,
                last_print_time = env_clock env 0,
                ticks = 1,
                sends = [START (env_clock env 0)],
                prints = [Client_connecting connection_id server_ip port,
                          Client_connected connection_id server_ip port]\<rparr>"
  have c: "client attr env server_ip port num_bytes duration format interval connection_id =
      (case send_data cx num_bytes duration st of None \<Rightarrow> None | Some (Inl e) \<Rightarrow> Some (Inl e)
       | Some (Inr st') \<Rightarrow> finish_session cx (env_reply env) st')"
    unfolding client_def Let_def cx_def st_def by (rule refl)
  have cs: "cx_start_time cx = env_clock env 0" by (simp add: cx_def)
  have iv: "cx_interval cx \<noteq> Some 0" using assms(4) by (simp add: cx_def)
  have p: "\<forall>s. Client_summary s \<notin> set (prints st)" by (simp add: st_def)
  from assms(1) c obtain lres where lr: "send_data cx num_bytes duration st = Some lres"
    by (auto split: option.splits)
  have "\<exists>st'. lres = Inr st' \<and> (\<forall>s. Client_summary s \<notin> set (prints st'))"
  proof (cases num_bytes)
    case (Some n)
    with lr send_bytes_loop_no_summary[OF iv p, of n] show ?thesis
      by (auto simp: send_data_def)
  next
    case None
    show ?thesis
    proof (cases duration)
      case (Some d)
      with None lr have "send_duration_loop cx (cx_start_time cx + real_of_int d) st = Some lres"
        by (simp add: send_data_def)
      from send_duration_loop_no_summary[OF this] iv p show ?thesis by blast
    next
      case None2: None
      with None lr p show ?thesis by (auto simp: send_data_def)
    qed
  qed
  then obtain st' where "lres = Inr st'" and "\<forall>s. Client_summary s \<notin> set (prints st')" by blast
  with assms(1,2,3) c lr show ?thesis
    by (auto simp: finish_session_def Let_def)
qed


lemma report_if_due_ticks:
  "report_if_due cx st = Inr st' \<Longrightarrow> ticks st \<le> ticks st'"
  by (auto simp: report_if_due_def split: option.splits if_splits sum.splits)

lemma report_if_due_returns:
  "cx_interval cx \<noteq> Some 0 \<Longrightarrow> \<exists>st'. report_if_due cx st = Inr st'"
  by (auto simp: report_if_due_def print_interval_stats_def Let_def split: option.splits)

lemma send_duration_loop_ends:
  assumes "cx_interval cx \<noteq> Some 0" and "\<forall>k\<ge>K. end_time \<le> cx_clock cx k"
  shows "\<exists>res. send_duration_loop cx end_time st = Some res"
proof (induction "K - ticks st" arbitrary: st rule: less_induct)
  case less
  show ?case
  proof (cases "cx_clock cx (ticks st) < end_time")
    case False
    then show ?thesis by (subst send_duration_loop.simps) simp
  next
    case True
    with assms(2) have lt: "ticks st < K" by (meson not_le_imp_less not_less)
    define st1 where "st1 = st\<lparr>ticks := ticks st + 1,
                    sends := sends st @ [Raw (replicate 1000 (CHR ''0''))],
                    total_sent := total_sent st + 1000\<rparr>"
    from report_if_due_returns[OF assms(1)] obtain st2 where r: "report_if_due cx st1 = Inr st2"
      by blast
    from report_if_due_ticks[OF r] have "ticks st < ticks st2" by (simp add: st1_def)
    with lt have "K - ticks st2 < K - ticks st" by simp
    from less[OF this] obtain res where "send_duration_loop cx end_time st2 = Some res" by blast
    with True r show ?thesis
      by (subst send_duration_loop.simps) (simp add: st1_def)
  qed
qed

lemma client_unacknowledged_returns:
  assumes "env_reply env = Some data" and "data \<noteq> ACK_BYE" and "interval \<noteq> Some 0"
    and "num_bytes = None \<longrightarrow> (\<forall>d. duration = Some d \<longrightarrow>
           (\<exists>K. \<forall>k\<ge>K. env_clock env 0 + real_of_int d \<le> env_clock env k))"
  shows "\<exists>r. client attr env server_ip port num_bytes duration format interval connection_id =
               Some (Inr r) \<and>
             (\<forall>s. Client_summary s \<notin> set (cr_prints r))"
proof -
  define cx where "cx = \<lparr>cx_attr = attr,
                cx_clock = env_clock env,
                cx_connection_id = connection_id,
                cx_client_ip = fst (env_sockname env),
                cx_client_port = snd (env_sockname env),
                cx_start_time = env_clock env 0,
                cx_format = format,
                cx_interval = interval\<rparr>"
  define st where "st = \<lparr>total_sent = 0,
                prev_total_sent = 0,
                last_print_time = env_clock env 0,
                ticks = 1,
                sends = [START (env_clock env 0)],
                prints = [Client_connecting connection_id server_ip port,
                          Client_connected connection_id server_ip port]\<rparr>"
  have c: "client attr env server_ip port num_bytes duration format interval connection_id =
      (case send_data cx num_bytes duration st of None \<Rightarrow> None | Some (Inl e) \<Rightarrow> Some (Inl e)
       | Some (Inr st') \<Rightarrow> finish_session cx (env_reply env) st')"
    unfolding client_def Let_def cx_def st_def by (rule refl)
  have iv: "cx_interval cx \<noteq> Some 0" using assms(3) by (simp add: cx_def)
  have "\<exists>lres. send_data cx num_bytes duration st = Some lres"
  proof (cases num_bytes)
    case (Some n)
    then show ?thesis by (simp add: send_data_def)
  next
    case None
    show ?thesis
    proof (cases duration)
      case None2: None
      with None show ?thesis by (simp add: send_data_def)
    next
      case (Some d)
      with None assms(4) obtain K where
          "\<forall>k\<ge>K. cx_start_time cx + real_of_int d \<le> cx_clock cx k"
        by (auto simp: cx_def)
      from send_duration_loop_ends[OF iv this] None Some show ?thesis
        by (simp add: send_data_def)
    qed
  qed
  then obtain lres where "send_data cx num_bytes duration st = Some lres" by blast
  with assms(1) c have "\<exists>res. client attr env server_ip port num_bytes duration format interval
      connection_id = Some res"
    by (cases lres) (auto simp: finish_session_def Let_def)
  then obtain res where res: "client attr env server_ip port num_bytes duration format interval
      connection_id = Some res" by blast
  from client_unacknowledged[OF res assms(1,2,3)] res show ?thesis by auto
qed

lemma those_map_Some:
  "(\<forall>x\<in>set xs. f x \<noteq> None) \<Longrightarrow> \<exists>ys. those (map f xs) = Some ys"
  by (induction xs) auto

lemma run_clients_ends:
  assumes "0 < arg_connections a"
    and "\<forall>j<nat (arg_connections a).
           client module_attr_prev_total_sent (envs j) (arg_serverip a) (arg_port a) (arg_num a)
             time (arg_format a) (arg_interval a) (int j + 1) \<noteq> None"
  shows "\<exists>m. run_clients a time envs = Some m \<and> length (mr_sessions m) = nat (arg_connections a)"
proof -
  let ?f = "\<lambda>i. client module_attr_prev_total_sent (envs i) (arg_serverip a)
                                 (arg_port a) (arg_num a) time (arg_format a)
                                 (arg_interval a) (int i + 1)"
  from assms(2) have "\<forall>x\<in>set [0..<nat (arg_connections a)]. ?f x \<noteq> None" by simp
  from those_map_Some[OF this] obtain ys where
      ys: "those (map ?f [0..<nat (arg_connections a)]) = Some ys" by blast
  from those_nth[OF ys] have "length ys = nat (arg_connections a)" by simp
  with assms(1) ys show ?thesis by (simp add: run_clients_def)
qed

lemma hangup_then_acked_run:
  "main timed_two_args hangup_then_acked =
     Some \<lparr>mr_lines = [],
       mr_sessions =
         [Inr \<lparr>cr_total_sent = 2000,
            cr_sends = [START 0, Raw (replicate 1000 (CHR ''0'')),
                        Raw (replicate 1000 (CHR ''0'')), Raw ''BYE''],
            cr_prints = [Client_connecting 1 ''127.0.0.1'' 8088,
              Client_connected 1 ''127.0.0.1'' 8088]\<rparr>,
          Inr \<lparr>cr_total_sent = 2000,
            cr_sends = [START 0, Raw (replicate 1000 (CHR ''0'')),
                        Raw (replicate 1000 (CHR ''0'')), Raw ''BYE''],
            cr_prints = [Client_connecting 2 ''127.0.0.1'' 8088,
              Client_connected 2 ''127.0.0.1'' 8088,
              Rule_line, Client_header,
              Client_summary \<lparr>fs_client_ip = ''10.0.0.2'', fs_client_port = 40000,
                fs_elapsed_time = 4, fs_total_sent = 2000, fs_format = ''B'',
                fs_bandwidth = 500\<rparr>]\<rparr>],
       mr_raised = None\<rparr>"
  by (simp add: main_def run_clients_def timed_two_args_def hangup_then_acked_def
        second_hangup_env_def second_env_def second_clock_def peer_addr_def
        module_attr_prev_total_sent_def client_def send_data_def send_duration_loop.simps
        report_if_due_def finish_session_def BYE_def ACK_BYE_def
        convert_summary_def Let_def upt_rec)

lemma second_clock_passes: "\<forall>k\<ge>3. second_clock 0 + real_of_int 3 \<le> second_clock k"
  by (simp add: second_clock_def)

text \<open>
  C5, as the code has it. Take a client run (client mode without server mode, not both
  limits given, a report interval that is not 0) and a session \<open>i\<close> of it whose
  \<^verbatim>\<open>recv\<close> after the marker returns a payload other than \<^verbatim>\<open>ACK: BYE\<close> (the empty
  payload of a closed socket included). The session reaches that \<^verbatim>\<open>recv\<close>: always when
  the run is limited by a byte count, and when it is limited by a duration provided the
  session's clock readings are, from some reading on, at or past its deadline. Then the
  session returns normally: it raises nothing and prints no summary line. If the sibling
  sessions come to an end as well, so does \<open>main\<close>; it holds an ordinary result for
  session \<open>i\<close>, what leaves it is the first error among the sessions' results, and every
  session of the run, this one and its siblings, did what \<open>client\<close> does on its own
  environment.
\<close>

theorem unacknowledged_session_returns:
  assumes "\<not> arg_server a" and "arg_client a"
    and "arg_num a = None \<or> arg_time a = None"
    and "arg_interval a \<noteq> Some 0"
    and "i < nat (arg_connections a)"
    and "env_reply (envs i) = Some data"
    and "data \<noteq> ACK_BYE"
    and "arg_num a = None \<longrightarrow>
           (\<exists>K. \<forall>k\<ge>K. env_clock (envs i) 0 +
                    real_of_int (case arg_time a of None \<Rightarrow> 25 | Some d \<Rightarrow> d)
                  \<le> env_clock (envs i) k)"
    and "\<forall>j<nat (arg_connections a). j \<noteq> i \<longrightarrow>
           client module_attr_prev_total_sent (envs j) (arg_serverip a) (arg_port a) (arg_num a)
             (if arg_num a = None \<and> arg_time a = None then Some 25 else arg_time a)
             (arg_format a) (arg_interval a) (int j + 1) \<noteq> None"
  shows "\<exists>m r. main a envs = Some m \<and>
           length (mr_sessions m) = nat (arg_connections a) \<and>
           mr_sessions m ! i = Inr r \<and> (\<forall>s. Client_summary s \<notin> set (cr_prints r)) \<and>
           mr_raised m = first_error (mr_sessions m) \<and>
           (\<forall>j<length (mr_sessions m).
              client module_attr_prev_total_sent (envs j) (arg_serverip a) (arg_port a)
                (arg_num a)
                (if arg_num a = None \<and> arg_time a = None then Some 25 else arg_time a)
                (arg_format a) (arg_interval a) (int j + 1) = Some (mr_sessions m ! j))"
proof -
  let ?time = "if arg_num a = None \<and> arg_time a = None then Some 25 else arg_time a"
  let ?c = "\<lambda>j. client module_attr_prev_total_sent (envs j) (arg_serverip a) (arg_port a)
      (arg_num a) ?time (arg_format a) (arg_interval a) (int j + 1)"
  from assms(8) have clock: "arg_num a = None \<longrightarrow> (\<forall>d. ?time = Some d \<longrightarrow>
      (\<exists>K. \<forall>k\<ge>K. env_clock (envs i) 0 + real_of_int d \<le> env_clock (envs i) k))"
    by (auto split: option.splits)
  from client_unacknowledged_returns[OF assms(6,7,4) clock]
  obtain r where r: "?c i = Some (Inr r)" and ns: "\<forall>s. Client_summary s \<notin> set (cr_prints r)"
    by blast
  from r assms(9) have all: "\<forall>j<nat (arg_connections a). ?c j \<noteq> None"
    by (metis option.distinct(1))
  from assms(5) have pos: "0 < arg_connections a" by simp
  from run_clients_ends[OF pos all] obtain m where rc: "run_clients a ?time envs = Some m"
    and len: "length (mr_sessions m) = nat (arg_connections a)"
    by blast
  from assms(1,2,3) rc have m: "main a envs = Some m"
    by (auto simp: main_def)
  from main_sessions[OF m] have ms: "\<forall>j<length (mr_sessions m). ?c j = Some (mr_sessions m ! j)"
    by blast
  with assms(5) len r have "mr_sessions m ! i = Inr r" by auto
  moreover from main_sessions[OF m, of i] assms(5) len
  have "mr_raised m = first_error (mr_sessions m)" by simp
  ultimately show ?thesis using m len ns ms by blast
qed

theorem unacknowledged_session_returns_witness:
  "\<exists>m r. main timed_two_args hangup_then_acked = Some m \<and>
     length (mr_sessions m) = 2 \<and>
     mr_sessions m ! 0 = Inr r \<and>
     cr_prints r = [Client_connecting 1 ''127.0.0.1'' 8088, Client_connected 1 ''127.0.0.1'' 8088] \<and>
     (\<forall>s. Client_summary s \<notin> set (cr_prints r)) \<and>
     mr_raised m = None"
proof -
  have sib: "\<forall>j<nat (arg_connections timed_two_args). j \<noteq> 0 \<longrightarrow>
           client module_attr_prev_total_sent (hangup_then_acked j) (arg_serverip timed_two_args)
             (arg_port timed_two_args) (arg_num timed_two_args)
             (if arg_num timed_two_args = None \<and> arg_time timed_two_args = None then Some 25
              else arg_time timed_two_args)
             (arg_format timed_two_args) (arg_interval timed_two_args) (int j + 1) \<noteq> None"
  proof (intro allI impI)
    fix j :: nat
    assume "j < nat (arg_connections timed_two_args)"
    then have "j < 2" by (simp add: timed_two_args_def)
    then show "client module_attr_prev_total_sent (hangup_then_acked j)
             (arg_serverip timed_two_args)
             (arg_port timed_two_args) (arg_num timed_two_args)
             (if arg_num timed_two_args = None \<and> arg_time timed_two_args = None then Some 25
              else arg_time timed_two_args)
             (arg_format timed_two_args) (arg_interval timed_two_args) (int j + 1) \<noteq> None"
      using main_sessions[OF hangup_then_acked_run, of j] by simp
  qed
  have clk: "arg_num timed_two_args = None \<longrightarrow>
           (\<exists>K. \<forall>k\<ge>K. env_clock (hangup_then_acked 0) 0 +
                    real_of_int (case arg_time timed_two_args of None \<Rightarrow> 25 | Some d \<Rightarrow> d)
                  \<le> env_clock (hangup_then_acked 0) k)"
    using second_clock_passes
    by (auto simp: timed_two_args_def hangup_then_acked_def second_hangup_env_def)
  have "\<exists>m r. main timed_two_args hangup_then_acked = Some m \<and>
           length (mr_sessions m) = nat (arg_connections timed_two_args) \<and>
           mr_sessions m ! 0 = Inr r \<and> (\<forall>s. Client_summary s \<notin> set (cr_prints r)) \<and>
           mr_raised m = first_error (mr_sessions m) \<and>
           (\<forall>j<length (mr_sessions m).
              client module_attr_prev_total_sent (hangup_then_acked j)
                (arg_serverip timed_two_args) (arg_port timed_two_args)
                (arg_num timed_two_args)
                (if arg_num timed_two_args = None \<and> arg_time timed_two_args = None then Some 25
                 else arg_time timed_two_args)
                (arg_format timed_two_args) (arg_interval timed_two_args) (int j + 1) =
              Some (mr_sessions m ! j))"
    by (rule unacknowledged_session_returns[of timed_two_args 0 hangup_then_acked "[]", OF _ _ _ _ _ _ _ clk sib])
       (simp_all add: timed_two_args_def hangup_then_acked_def second_hangup_env_def ACK_BYE_def)
  then show ?thesis using hangup_then_acked_run by auto
qed

text \<open>
  C5 as stated fails: a session whose server closes the connection instead of
  acknowledging returns without an error, having printed only its two connection lines,
  and the run of \<open>main\<close> that holds it ends with no exception and exit status 0.
\<close>

theorem unacknowledged_session_is_no_error:
  "map_option (map_sum id cr_prints)
     (client 0 hangup_env ''127.0.0.1'' 8088 (Some 1000) None ''MB'' None 1) =
     Some (Inr [Client_connecting 1 ''127.0.0.1'' 8088, Client_connected 1 ''127.0.0.1'' 8088]) \<and>
   map_option mr_raised (main one_client_args all_hangup) = Some None \<and>
   map_option exit_status (main one_client_args all_hangup) = Some 0"
  by (simp add: main_def run_clients_def one_client_args_def all_hangup_def hangup_env_def
        steady_clock_def peer_addr_def module_attr_prev_total_sent_def exit_status_def
        client_def send_data_def send_bytes_loop.simps report_if_due_def finish_session_def
        BYE_def ACK_BYE_def Let_def)

section \<open>Interval statistics of a session\<close>

text \<open>
  What a session reported at its intervals: the byte count and the bandwidth of each
  interval line among the lines it printed, in order; for a session that raised, the
  error.
\<close>

fun interval_stats :: "line list \<Rightarrow> (real \<times> real) list" where
  "interval_stats [] = []"
| "interval_stats (Interval_stats s # ls) =
     (rs_interval_transfer s, rs_interval_bandwidth s) # interval_stats ls"
| "interval_stats (l # ls) = interval_stats ls"

definition result_stats :: "py_error + client_result \<Rightarrow> py_error + (real \<times> real) list" where
  "result_stats = map_sum id (interval_stats \<circ> cr_prints)"

text \<open>
  Two sessions that differ at most in the attribute and the connection id, and two states
  of their loops that differ at most in lines that are not interval statistics.
\<close>

definition same_session :: "session_ctx \<Rightarrow> session_ctx \<Rightarrow> bool" where
  "same_session cx cx' \<longleftrightarrow>
     cx_clock cx = cx_clock cx' \<and> cx_start_time cx = cx_start_time cx' \<and>
     cx_format cx = cx_format cx' \<and> cx_interval cx = cx_interval cx'"

definition same_stats :: "cstate \<Rightarrow> cstate \<Rightarrow> bool" where
  "same_stats st st' \<longleftrightarrow>
     total_sent st = total_sent st' \<and> prev_total_sent st = prev_total_sent st' \<and>
     last_print_time st = last_print_time st' \<and> ticks st = ticks st' \<and>
     sends st = sends st' \<and> interval_stats (prints st) = interval_stats (prints st')"

lemma interval_stats_append:
  "interval_stats (xs @ ys) = interval_stats xs @ interval_stats ys"
  by (induction xs rule: interval_stats.induct) simp_all

lemma same_session_sym: "same_session cx cx' \<Longrightarrow> same_session cx' cx"
  by (simp add: same_session_def)

lemma same_stats_sym: "same_stats st st' \<Longrightarrow> same_stats st' st"
  by (simp add: same_stats_def)

lemma report_if_due_same:
  assumes "same_session cx cx'" and "same_stats st st'"
  shows "rel_sum (=) same_stats (report_if_due cx st) (report_if_due cx' st')"
  using assms
  by (auto simp: report_if_due_def print_interval_stats_def same_session_def same_stats_def
        interval_stats_append Let_def split: option.splits)

lemma send_bytes_loop_same:
  "same_session cx cx' \<Longrightarrow> same_stats st st' \<Longrightarrow>
   rel_sum (=) same_stats (send_bytes_loop cx n st) (send_bytes_loop cx' n st')"
proof (induction cx n st arbitrary: st' rule: send_bytes_loop.induct)
  case (1 cx n st)
  from "1.prems"(2) have ts: "total_sent st' = total_sent st" by (simp add: same_stats_def)
  show ?case
  proof (cases "total_sent st < n")
    case False
    with ts "1.prems"(2) show ?thesis by (simp add: send_bytes_loop.simps)
  next
    case True
    define to_send where "to_send = min 1000 (n - total_sent st)"
    define st1 where "st1 = st\<lparr>sends := sends st @ [Raw (replicate (nat to_send) (CHR ''0''))],
                    total_sent := total_sent st + to_send\<rparr>"
    define st1' where "st1' = st'\<lparr>sends := sends st' @ [Raw (replicate (nat to_send) (CHR ''0''))],
                    total_sent := total_sent st' + to_send\<rparr>"
    from "1.prems"(2) have "same_stats st1 st1'" by (simp add: same_stats_def st1_def st1'_def)
    from report_if_due_same[OF "1.prems"(1) this]
    have rr: "rel_sum (=) same_stats (report_if_due cx st1) (report_if_due cx' st1')" .
    have l: "send_bytes_loop cx n st =
        (case report_if_due cx st1 of Inl e \<Rightarrow> Inl e | Inr st2 \<Rightarrow> send_bytes_loop cx n st2)"
      using True by (subst send_bytes_loop.simps) (simp add: Let_def st1_def to_send_def)
    have l': "send_bytes_loop cx' n st' =
        (case report_if_due cx' st1' of Inl e \<Rightarrow> Inl e | Inr st2 \<Rightarrow> send_bytes_loop cx' n st2)"
      using True ts by (subst send_bytes_loop.simps) (simp add: Let_def st1'_def to_send_def)
    show ?thesis
    proof (cases "report_if_due cx st1")
      case (Inl e)
      with rr have "report_if_due cx' st1' = Inl e" by (cases "report_if_due cx' st1'") auto
      with Inl l l' show ?thesis by simp
    next
      case (Inr st2)
      with rr obtain st2' where r': "report_if_due cx' st1' = Inr st2'" and s2: "same_stats st2 st2'"
        by (cases "report_if_due cx' st1'") auto
      from "1.IH"[OF True to_send_def Inr[unfolded st1_def] "1.prems"(1) s2]
      show ?thesis using Inr r' l l' by simp
    qed
  qed
qed

lemma send_duration_loop_same_step:
  assumes "send_duration_loop cx end_time st = Some res"
  shows "\<forall>cx' st'. same_session cx cx' \<longrightarrow> same_stats st st' \<longrightarrow>
           (\<exists>res'. send_duration_loop cx' end_time st' = Some res' \<and>
                    rel_sum (=) same_stats res res')"
proof (rule send_duration_loop.raw_induct[OF _ assms])
  fix loop cx end_time st res
  assume IH: "\<And>cx end_time st res. loop cx end_time st = Some res \<Longrightarrow>
      \<forall>cx' st'. same_session cx cx' \<longrightarrow> same_stats st st' \<longrightarrow>
           (\<exists>res'. send_duration_loop cx' end_time st' = Some res' \<and>
                    rel_sum (=) same_stats res res')"
    and step: "(if cx_clock cx (ticks st) < end_time then
        (case report_if_due cx
                (st\<lparr>ticks := ticks st + 1,
                    sends := sends st @ [Raw (replicate 1000 (CHR ''0''))],
                    total_sent := total_sent st + 1000\<rparr>) of
           Inl e \<Rightarrow> Some (Inl e)
         | Inr st' \<Rightarrow> loop cx end_time st')
      else Some (Inr (st\<lparr>ticks := ticks st + 1\<rparr>))) = Some res"
  show "\<forall>cx' st'. same_session cx cx' \<longrightarrow> same_stats st st' \<longrightarrow>
           (\<exists>res'. send_duration_loop cx' end_time st' = Some res' \<and>
                    rel_sum (=) same_stats res res')"
  proof (intro allI impI)
    fix cx' st'
    assume c: "same_session cx cx'" and s: "same_stats st st'"
    from c s have clk: "cx_clock cx' (ticks st') = cx_clock cx (ticks st)"
      by (simp add: same_session_def same_stats_def)
    define st1 where "st1 = st\<lparr>ticks := ticks st + 1,
                    sends := sends st @ [Raw (replicate 1000 (CHR ''0''))],
                    total_sent := total_sent st + 1000\<rparr>"
    define st1' where "st1' = st'\<lparr>ticks := ticks st' + 1,
                    sends := sends st' @ [Raw (replicate 1000 (CHR ''0''))],
                    total_sent := total_sent st' + 1000\<rparr>"
    show "\<exists>res'. send_duration_loop cx' end_time st' = Some res' \<and> rel_sum (=) same_stats res res'"
    proof (cases "cx_clock cx (ticks st) < end_time")
      case False
      with step have "res = Inr (st\<lparr>ticks := ticks st + 1\<rparr>)" by simp
      moreover from False clk have "send_duration_loop cx' end_time st' =
          Some (Inr (st'\<lparr>ticks := ticks st' + 1\<rparr>))"
        by (subst send_duration_loop.simps) simp
      ultimately show ?thesis using s by (simp add: same_stats_def)
    next
      case True
      from s have "same_stats st1 st1'" by (simp add: same_stats_def st1_def st1'_def)
      from report_if_due_same[OF c this]
      have rr: "rel_sum (=) same_stats (report_if_due cx st1) (report_if_due cx' st1')" .
      have l': "send_duration_loop cx' end_time st' =
          (case report_if_due cx' st1' of Inl e \<Rightarrow> Some (Inl e)
           | Inr st2 \<Rightarrow> send_duration_loop cx' end_time st2)"
        using True clk by (subst send_duration_loop.simps) (simp add: st1'_def)
      show ?thesis
      proof (cases "report_if_due cx st1")
        case (Inl e)
        from Inl[unfolded st1_def] True step have res: "res = Inl e" by auto
        from Inl rr have "report_if_due cx' st1' = Inl e" by (cases "report_if_due cx' st1'") auto
        with l' res show ?thesis by simp
      next
        case (Inr st2)
        with rr obtain st2' where r': "report_if_due cx' st1' = Inr st2'"
          and s2: "same_stats st2 st2'"
          by (cases "report_if_due cx' st1'") auto
        from Inr True step have "loop cx end_time st2 = Some res" by (simp add: st1_def)
        from IH[OF this] c s2 obtain res' where
            "send_duration_loop cx' end_time st2' = Some res'" and "rel_sum (=) same_stats res res'"
          by blast
        with r' l' show ?thesis by simp
      qed
    qed
  qed
qed

lemma send_duration_loop_same:
  assumes "same_session cx cx'" and "same_stats st st'"
  shows "rel_option (rel_sum (=) same_stats)
           (send_duration_loop cx end_time st) (send_duration_loop cx' end_time st')"
proof (cases "send_duration_loop cx end_time st")
  case (Some res)
  from send_duration_loop_same_step[OF this] assms obtain res' where
      "send_duration_loop cx' end_time st' = Some res'" and "rel_sum (=) same_stats res res'"
    by blast
  with Some show ?thesis by simp
next
  case None
  show ?thesis
  proof (cases "send_duration_loop cx' end_time st'")
    case None': None
    with None show ?thesis by simp
  next
    case (Some res')
    from send_duration_loop_same_step[OF this] same_session_sym[OF assms(1)]
      same_stats_sym[OF assms(2)]
    obtain res where "send_duration_loop cx end_time st = Some res" by blast
    with None show ?thesis by simp
  qed
qed

lemma send_data_same:
  assumes "same_session cx cx'" and "same_stats st st'"
  shows "rel_option (rel_sum (=) same_stats)
           (send_data cx num_bytes duration st) (send_data cx' num_bytes duration st')"
proof -
  from assms(1) have "cx_start_time cx' = cx_start_time cx" by (simp add: same_session_def)
  with assms send_bytes_loop_same[OF assms] send_duration_loop_same[OF assms] show ?thesis
    by (auto simp: send_data_def split: option.splits)
qed

lemma finish_session_same:
  assumes "same_session cx cx'" and "same_stats st st'"
  shows "map_option result_stats (finish_session cx reply st) =
         map_option result_stats (finish_session cx' reply st')"
  using assms
  by (auto simp: finish_session_def result_stats_def same_session_def same_stats_def
        interval_stats_append Let_def split: option.splits)

lemma client_same_stats:
  "map_option result_stats
     (client attr env server_ip port num_bytes duration format interval connection_id) =
   map_option result_stats
     (client attr' env server_ip' port' num_bytes duration format interval connection_id')"
proof -
  define cx where "cx = \<lparr>cx_attr = attr,
                cx_clock = env_clock env,
                cx_connection_id = connection_id,
                cx_client_ip = fst (env_sockname env),
                cx_client_port = snd (env_sockname env),
                cx_start_time = env_clock env 0,
                cx_format = format,
                cx_interval = interval\<rparr>"
  define st where "st = \<lparr>total_sent = 0,
                prev_total_sent = 0,
                last_print_time = env_clock env 0,
                ticks = 1,
                sends = [START (env_clock env 0)],
                prints = [Client_connecting connection_id server_ip port,
                          Client_connected connection_id server_ip port]\<rparr>"
  define cx' where "cx' = \<lparr>cx_attr = attr',
                cx_clock = env_clock env,
                cx_connection_id = connection_id',
                cx_client_ip = fst (env_sockname env),
                cx_client_port = snd (env_sockname env),
                cx_start_time = env_clock env 0,
                cx_format = format,
                cx_interval = interval\<rparr>"
  define st' where "st' = \<lparr>total_sent = 0,
                prev_total_sent = 0,
                last_print_time = env_clock env 0,
                ticks = 1,
                sends = [START (env_clock env 0)],
                prints = [Client_connecting connection_id' server_ip' port',
                          Client_connected connection_id' server_ip' port']\<rparr>"
  have c: "client attr env server_ip port num_bytes duration format interval connection_id =
      (case send_data cx num_bytes duration st of None \<Rightarrow> None | Some (Inl e) \<Rightarrow> Some (Inl e)
       | Some (Inr st2) \<Rightarrow> finish_session cx (env_reply env) st2)"
    unfolding client_def Let_def cx_def st_def by (rule refl)
  have c': "client attr' env server_ip' port' num_bytes duration format interval connection_id' =
      (case send_data cx' num_bytes duration st' of None \<Rightarrow> None | Some (Inl e) \<Rightarrow> Some (Inl e)
       | Some (Inr st2) \<Rightarrow> finish_session cx' (env_reply env) st2)"
    unfolding client_def Let_def cx'_def st'_def by (rule refl)
  have ss: "same_session cx cx'" by (simp add: same_session_def cx_def cx'_def)
  have st: "same_stats st st'" by (simp add: same_stats_def st_def st'_def)
  from send_data_same[OF ss st]
  have rel: "rel_option (rel_sum (=) same_stats)
      (send_data cx num_bytes duration st) (send_data cx' num_bytes duration st')" .
  show ?thesis
  proof (cases "send_data cx num_bytes duration st")
    case None
    with rel have "send_data cx' num_bytes duration st' = None" by simp
    with None c c' show ?thesis by simp
  next
    case (Some res)
    with rel obtain res' where s': "send_data cx' num_bytes duration st' = Some res'"
      and rr: "rel_sum (=) same_stats res res'"
      by (cases "send_data cx' num_bytes duration st'") auto
    show ?thesis
    proof (cases res)
      case (Inl e)
      with rr have "res' = Inl e" by (cases res') auto
      with Inl Some s' c c' show ?thesis by (simp add: result_stats_def)
    next
      case (Inr st2)
      with rr obtain st2' where "res' = Inr st2'" and "same_stats st2 st2'" by (cases res') auto
      with Inr Some s' c c' finish_session_same[OF ss, of st2 st2' "env_reply env"] show ?thesis by simp
    qed
  qed
qed


lemma steady_then_stalled_run:
  "main two_clients_args steady_then_stalled =
     Some \<lparr>mr_lines = [],
       mr_sessions =
         [Inr \<lparr>cr_total_sent = 1000,
            cr_sends = [START 0, Raw (replicate 1000 (CHR ''0'')), Raw ''BYE''],
            cr_prints = [Client_connecting 1 ''127.0.0.1'' 8088,
              Client_connected 1 ''127.0.0.1'' 8088,
              Interval_stats \<lparr>rs_connection_id = 1, rs_client_ip = ''10.0.0.2'',
                rs_client_port = 40000, rs_interval_elapsed_time = 15, rs_elapsed_time = 16,
                rs_interval_transfer = 1000, rs_format = ''B'',
                rs_interval_bandwidth = 125 / 131072\<rparr>,
              Rule_line, Client_header,
              Client_summary \<lparr>fs_client_ip = ''10.0.0.2'', fs_client_port = 40000,
                fs_elapsed_time = 32, fs_total_sent = 1000, fs_format = ''B'',
                fs_bandwidth = 125 / 4\<rparr>]\<rparr>,
          Inr \<lparr>cr_total_sent = 1000,
            cr_sends = [START 0, Raw (replicate 1000 (CHR ''0'')), Raw ''BYE''],
            cr_prints = [Client_connecting 2 ''127.0.0.1'' 8088,
              Client_connected 2 ''127.0.0.1'' 8088,
              Interval_stats \<lparr>rs_connection_id = 2, rs_client_ip = ''10.0.0.2'',
                rs_client_port = 40000, rs_interval_elapsed_time = 4, rs_elapsed_time = 5,
                rs_interval_transfer = 1000, rs_format = ''B'',
                rs_interval_bandwidth = 125 / 131072\<rparr>,
              Rule_line, Client_header,
              Client_summary \<lparr>fs_client_ip = ''10.0.0.2'', fs_client_port = 40000,
                fs_elapsed_time = 5, fs_total_sent = 1000, fs_format = ''B'',
                fs_bandwidth = 200\<rparr>]\<rparr>],
       mr_raised = None\<rparr>"
  by (simp add: main_def run_clients_def two_clients_args_def steady_then_stalled_def
        steady_env_def stalled_env_def steady_clock_def stalled_clock_def peer_addr_def
        module_attr_prev_total_sent_def client_def send_data_def send_bytes_loop.simps
        report_if_due_def print_interval_stats_def finish_session_def BYE_def ACK_BYE_def
        convert_summary_def convert_interval_def Let_def upt_rec)

text \<open>
  C9. Take a client run that comes to an end, and any session \<open>i\<close> of it. The interval
  statistics that the session reported (the byte count and the bandwidth of each interval
  line, or the error it raised) are those of the same session run alone: \<open>client\<close>
  called with connection id 1 on the environment \<open>envs i\<close>, and with any value \<open>attr\<close>
  of the attribute that line 176 attaches to \<open>print_interval_stats\<close>. So neither the
  siblings nor that attribute have any part in them.
\<close>

theorem session_stats_independent_of_siblings:
  assumes "main a envs = Some m" and "i < length (mr_sessions m)"
  shows "map_option result_stats
           (client attr (envs i) (arg_serverip a) (arg_port a) (arg_num a)
              (if arg_num a = None \<and> arg_time a = None then Some 25 else arg_time a)
              (arg_format a) (arg_interval a) 1) =
         Some (result_stats (mr_sessions m ! i))"
proof -
  from main_sessions[OF assms] have "map_option result_stats
      (client module_attr_prev_total_sent (envs i) (arg_serverip a) (arg_port a) (arg_num a)
         (if arg_num a = None \<and> arg_time a = None then Some 25 else arg_time a)
         (arg_format a) (arg_interval a) (int i + 1)) = Some (result_stats (mr_sessions m ! i))"
    by simp
  then show ?thesis
    by (subst client_same_stats[of attr _ _ _ _ _ _ _ 1 module_attr_prev_total_sent
          "arg_serverip a" "arg_port a" "int i + 1"])
qed

theorem session_stats_independent_of_siblings_witness:
  "\<exists>m. main two_clients_args steady_then_stalled = Some m \<and>
     length (mr_sessions m) = 2 \<and>
     map_option result_stats
       (client 7 stalled_env ''127.0.0.1'' 8088 (Some 1000) None ''B'' (Some 1) 1) =
       Some (result_stats (mr_sessions m ! 1)) \<and>
     result_stats (mr_sessions m ! 1) = Inr [(1000, 125 / 131072)]"
  using session_stats_independent_of_siblings[OF steady_then_stalled_run, of 1 7]
    steady_then_stalled_run
  by (simp add: steady_then_stalled_def two_clients_args_def result_stats_def)

end
